theory Spec2Isabelle
  imports Complex_Main "HOL-Library.AList"
begin

text \<open>
  A model of the request handlers of the farmers' market application (\<^verbatim>\<open>main.py\<close>,
  \<^verbatim>\<open>config.py\<close>) and the properties of its specification. A handler is a function from
  the request and the state (the three collections of the store, the session, the
  files) to the state it leaves, the messages it flashes and its response. Every branch
  of a handler, its \<^verbatim>\<open>except\<close> branches included, is a branch of the function.
\<close>

section \<open>Values, documents and dictionaries\<close>

text \<open>
  The handlers of \<^verbatim>\<open>main.py\<close> move Python dictionaries between the request, the session
  and the collections of the document store. A dictionary is an association list in
  insertion order, read with \<^const>\<open>map_of\<close> and written with \<^const>\<open>AList.update\<close>
  (replace in place, or append). Strings are byte strings; the values are the ones these
  handlers can build: strings, numbers, booleans, timestamps, store identifiers, nested
  documents and Python's \<^verbatim>\<open>None\<close>.
\<close>

record datetime =
  year :: nat
  month :: nat
  day :: nat
  hour :: nat
  minute :: nat
  second :: nat

type_synonym oid = string

datatype val =
    Null
  | Str string
  | Num int
  | Flt real
  | Bool bool
  | Time datetime
  | Oid oid
  | Doc "(string \<times> val) list"

type_synonym doc = "(string \<times> val) list"

datatype error = IndexError | DuplicateKeyError

text \<open>Python truthiness of a looked-up value (\<^verbatim>\<open>if v:\<close>, \<^verbatim>\<open>not v\<close>).\<close>

fun truthy :: "val \<Rightarrow> bool" where
  "truthy Null = False"
| "truthy (Str s) = (s \<noteq> [])"
| "truthy (Num i) = (i \<noteq> 0)"
| "truthy (Flt r) = (r \<noteq> 0)"
| "truthy (Bool b) = b"
| "truthy (Time t) = True"
| "truthy (Oid i) = True"
| "truthy (Doc d) = (d \<noteq> [])"

text \<open>\<^verbatim>\<open>d[k] = v\<close> for each pair of a dictionary, in order: the \<^verbatim>\<open>$set\<close> of the store and
  \<^verbatim>\<open>dict.update\<close>.\<close>

definition set_fields :: "doc \<Rightarrow> doc \<Rightarrow> doc" where
  "set_fields upd d = fold (\<lambda>(k, v). AList.update k v) upd d"

text \<open>\<^verbatim>\<open>request.form.to_dict()\<close>: the first value of every key, as strings.\<close>

definition to_dict :: "(string \<times> string) list \<Rightarrow> doc" where
  "to_dict frm = fold (\<lambda>(k, v) d. if k \<in> fst ` set d then d else d @ [(k, Str v)]) frm []"

text \<open>\<^verbatim>\<open>form.get(k)\<close> as a value: \<^verbatim>\<open>None\<close> when the key is absent.\<close>

definition form_get :: "(string \<times> string) list \<Rightarrow> string \<Rightarrow> val" where
  "form_get frm k = (case map_of frm k of None \<Rightarrow> Null | Some s \<Rightarrow> Str s)"

text \<open>\<^verbatim>\<open>d.get(k, default)\<close>.\<close>

definition get_default :: "doc \<Rightarrow> string \<Rightarrow> val \<Rightarrow> val" where
  "get_default d k dflt = (case map_of d k of None \<Rightarrow> dflt | Some v \<Rightarrow> v)"

section \<open>Strings and paths\<close>

text \<open>\<^verbatim>\<open>str.lower()\<close> on byte strings: the ASCII capitals change, every other character stays.\<close>

definition lower_char :: "char \<Rightarrow> char" where
  "lower_char c =
     (case map_of (zip ''ABCDEFGHIJKLMNOPQRSTUVWXYZ'' ''abcdefghijklmnopqrstuvwxyz'') c of
        Some l \<Rightarrow> l
      | None \<Rightarrow> c)"

definition lower :: "string \<Rightarrow> string" where
  "lower s = map lower_char s"

text \<open>\<^verbatim>\<open>s.rsplit(sep, 1)\<close>: split once at the last separator, or the string alone.\<close>

definition rsplit1 :: "char \<Rightarrow> string \<Rightarrow> string list" where
  "rsplit1 sep s =
     (if sep \<in> set s
      then [rev (tl (dropWhile (\<lambda>c. c \<noteq> sep) (rev s))), rev (takeWhile (\<lambda>c. c \<noteq> sep) (rev s))]
      else [s])"

text \<open>\<^verbatim>\<open>xs[i]\<close> for a non-negative index: IndexError out of range.\<close>

definition getitem :: "'a list \<Rightarrow> nat \<Rightarrow> error + 'a" where
  "getitem xs i = (if i < length xs then Inr (xs ! i) else Inl IndexError)"

text \<open>\<^verbatim>\<open>os.path.join(a, b)\<close> on POSIX: an absolute second component replaces the first.\<close>

definition os_path_join :: "string \<Rightarrow> string \<Rightarrow> string" where
  "os_path_join a b =
     (if b \<noteq> [] \<and> hd b = CHR ''/'' then b
      else if a = [] \<or> last a = CHR ''/'' then a @ b
      else a @ ''/'' @ b)"

definition digit :: "nat \<Rightarrow> char" where
  "digit n = ''0123456789'' ! (n mod 10)"

definition pad2 :: "nat \<Rightarrow> string" where
  "pad2 n = [digit (n div 10), digit n]"

definition pad4 :: "nat \<Rightarrow> string" where
  "pad4 n = [digit (n div 1000), digit (n div 100), digit (n div 10), digit n]"

text \<open>\<^verbatim>\<open>strftime("%Y%m%d%H%M%S")\<close> and \<^verbatim>\<open>strftime("%Y%m%d_%H%M%S")\<close> for four-digit years.\<close>

definition strftime_compact :: "datetime \<Rightarrow> string" where
  "strftime_compact t =
     pad4 (year t) @ pad2 (month t) @ pad2 (day t) @ pad2 (hour t) @ pad2 (minute t) @ pad2 (second t)"

definition strftime_underscore :: "datetime \<Rightarrow> string" where
  "strftime_underscore t =
     pad4 (year t) @ pad2 (month t) @ pad2 (day t) @ ''_'' @ pad2 (hour t) @ pad2 (minute t) @ pad2 (second t)"

section \<open>Libraries, configuration and environment\<close>

text \<open>
  The functions of werkzeug, bson, Flask and the Python built-ins that the handlers call
  are not code of this repository: they are parameters of the model. The salt of
  \<^verbatim>\<open>generate_password_hash\<close> is drawn inside the call, so it is an argument here.
  \<^verbatim>\<open>ObjectId\<close> parses the external string of a store identifier and gives
  \<^const>\<open>None\<close> where bson raises InvalidId; \<^verbatim>\<open>py_float\<close> and \<^verbatim>\<open>py_int\<close> give
  \<^const>\<open>None\<close> where Python raises ValueError. An identifier is kept as the string that
  \<^verbatim>\<open>str\<close> prints for it.
\<close>

record lib =
  generate_password_hash :: "string \<Rightarrow> string \<Rightarrow> string"
  check_password_hash :: "string \<Rightarrow> string \<Rightarrow> bool"
  secure_filename :: "string \<Rightarrow> string"
  ObjectId :: "string \<Rightarrow> oid option"
  py_float :: "string \<Rightarrow> real option"
  py_int :: "string \<Rightarrow> int option"
  py_str :: "val \<Rightarrow> string"
  url_quote :: "string \<Rightarrow> string"

text \<open>\<^verbatim>\<open>str(v)\<close> of a stored value.\<close>

definition str_of :: "lib \<Rightarrow> val \<Rightarrow> string" where
  "str_of L v = (case v of Str s \<Rightarrow> s | Oid i \<Rightarrow> i | _ \<Rightarrow> py_str L v)"

text \<open>
  \<^verbatim>\<open>config.py\<close>: the class \<^verbatim>\<open>Config\<close> that \<^verbatim>\<open>app.config.from_object\<close> loads. It defines
  the upload folder, the allowed extensions and the size limit (and the secret key and
  the store's address, which no handler reads). It defines no \<^verbatim>\<open>DEFAULT_IMAGES\<close>: the
  field is optional in the model, and \<^const>\<open>None\<close> is the key missing from
  \<^verbatim>\<open>app.config\<close>.
\<close>

record config =
  UPLOAD_FOLDER :: string
  ALLOWED_EXTENSIONS :: "string set"
  MAX_CONTENT_LENGTH :: nat
  DEFAULT_IMAGES :: "(string \<times> string) list option"

record flask_app =
  config :: config
  static_folder :: string
  static_url_path :: string

definition Config :: "string \<Rightarrow> config" where
  "Config basedir =
     \<lparr>UPLOAD_FOLDER = os_path_join (os_path_join basedir ''static'') ''uploads'',
      ALLOWED_EXTENSIONS = {''png'', ''jpg'', ''jpeg'', ''gif''},
      MAX_CONTENT_LENGTH = 8 * 1024 * 1024,
      DEFAULT_IMAGES = None\<rparr>"

text \<open>\<^verbatim>\<open>app = Flask(__name__)\<close> in the directory \<open>basedir\<close>, with Flask's default static
  folder and static URL path.\<close>

definition app :: "string \<Rightarrow> flask_app" where
  "app basedir =
     \<lparr>config = Config basedir,
      static_folder = os_path_join basedir ''static'',
      static_url_path = ''/static''\<rparr>"

text \<open>\<^verbatim>\<open>url_for('static', filename=f)\<close>.\<close>

definition url_for_static :: "flask_app \<Rightarrow> lib \<Rightarrow> string \<Rightarrow> string" where
  "url_for_static A L f = static_url_path A @ ''/'' @ url_quote L f"

text \<open>What a request reads from outside: the clock, the salt of the hash and the
  identifier the store driver generates for an inserted document.\<close>

record env =
  now :: datetime
  utcnow :: datetime
  salt :: string
  new_id :: oid

section \<open>The document store\<close>

text \<open>
  A collection is the list of its documents. A filter matches a document that has each
  of its fields with that value (the handlers filter on strings and identifiers only).
  The store is taken as available: its calls return. An empty \<^verbatim>\<open>$set\<close> changes nothing
  and is not an error, as on current servers.
\<close>

record mongo_db =
  users :: "doc list"
  products :: "doc list"
  orders :: "doc list"

definition matches :: "doc \<Rightarrow> doc \<Rightarrow> bool" where
  "matches query d = list_all (\<lambda>(k, v). map_of d k = Some v) query"

definition find_docs :: "doc list \<Rightarrow> doc \<Rightarrow> doc list" where
  "find_docs coll query = filter (matches query) coll"

definition find_one :: "doc list \<Rightarrow> doc \<Rightarrow> doc option" where
  "find_one coll query = List.find (matches query) coll"

text \<open>A projection keeps \<^verbatim>\<open>_id\<close> and the listed fields.\<close>

definition project :: "string list \<Rightarrow> doc \<Rightarrow> doc" where
  "project keep d = filter (\<lambda>(k, v). k = ''_id'' \<or> k \<in> set keep) d"

text \<open>\<^verbatim>\<open>update_one(query, {'$set': upd})\<close>: the first matching document gets the fields.\<close>

fun update_one :: "doc list \<Rightarrow> doc \<Rightarrow> doc \<Rightarrow> doc list" where
  "update_one [] query upd = []"
| "update_one (d # ds) query upd =
     (if matches query d then set_fields upd d # ds else d # update_one ds query upd)"

definition modified_count :: "doc list \<Rightarrow> doc \<Rightarrow> doc \<Rightarrow> nat" where
  "modified_count coll query upd =
     (case find_one coll query of
        None \<Rightarrow> 0
      | Some d \<Rightarrow> if set_fields upd d = d then 0 else 1)"

text \<open>\<^verbatim>\<open>insert_one(d)\<close>: the driver adds a generated \<^verbatim>\<open>_id\<close> to a document without one; the
  store refuses an \<^verbatim>\<open>_id\<close> it already holds.\<close>

definition with_id :: "oid \<Rightarrow> doc \<Rightarrow> doc" where
  "with_id fresh d = (if ''_id'' \<in> fst ` set d then d else d @ [(''_id'', Oid fresh)])"

definition insert_one :: "doc list \<Rightarrow> oid \<Rightarrow> doc \<Rightarrow> error + doc list" where
  "insert_one coll fresh d =
     (let d' = with_id fresh d
      in if map_of d' ''_id'' \<in> (\<lambda>x. map_of x ''_id'') ` set coll
         then Inl DuplicateKeyError
         else Inr (coll @ [d']))"

section \<open>Requests, sessions, files and responses\<close>

datatype http_method = GET | POST

record file_storage =
  filename :: string
  content :: string

record request =
  req_method :: http_method
  form :: "(string \<times> string) list"
  files :: "(string \<times> file_storage) list"
  args :: "(string \<times> string) list"
  url :: string

text \<open>The session holds what \<^verbatim>\<open>login\<close> puts there: \<^verbatim>\<open>user_id\<close> is always a string, the
  other two are values read from the user's document.\<close>

record session =
  sess_user_id :: "string option"
  sess_user_type :: "val option"
  sess_name :: "val option"

definition session_clear :: session where
  "session_clear = \<lparr>sess_user_id = None, sess_user_type = None, sess_name = None\<rparr>"

text \<open>The file system: each path with what is there, a directory or a file with its
  bytes and the mode set by \<^verbatim>\<open>os.chmod\<close> (if any). The file system is taken as
  available: its calls return.\<close>

datatype node = Directory | File string "nat option"

type_synonym filesystem = "(string \<times> node) list"

definition makedirs :: "string \<Rightarrow> filesystem \<Rightarrow> filesystem" where
  "makedirs p F = (if p \<in> fst ` set F then F else F @ [(p, Directory)])"

definition save :: "file_storage \<Rightarrow> string \<Rightarrow> filesystem \<Rightarrow> filesystem" where
  "save file p F = AList.update p (File (content file) None) F"

definition chmod :: "string \<Rightarrow> nat \<Rightarrow> filesystem \<Rightarrow> filesystem" where
  "chmod p m F =
     AList.map_entry p (\<lambda>n. case n of File c x \<Rightarrow> File c (Some m) | Directory \<Rightarrow> Directory) F"

definition path_exists :: "filesystem \<Rightarrow> string \<Rightarrow> bool" where
  "path_exists F p = (p \<in> fst ` set F)"

definition isdir :: "filesystem \<Rightarrow> string \<Rightarrow> bool" where
  "isdir F p = (map_of F p = Some Directory)"

datatype target = Endpoint string | Url string

datatype tval = TNone | TDoc doc | TDocs "doc list"

datatype response = Redirect target | Render string "(string \<times> tval) list"

record world =
  db :: mongo_db
  session :: session
  fs :: filesystem

text \<open>What a handler leaves behind: the state, the messages it flashed (text and
  category) and its response.\<close>

record outcome =
  world :: world
  flashes :: "(string \<times> string) list"
  response :: response

definition reply :: "world \<Rightarrow> (string \<times> string) list \<Rightarrow> response \<Rightarrow> outcome" where
  "reply W msgs r = \<lparr>world = W, flashes = msgs, response = r\<rparr>"

text \<open>Writing a collection of \<^verbatim>\<open>mongo.db\<close> back into the state.\<close>

definition set_users :: "doc list \<Rightarrow> world \<Rightarrow> world" where
  "set_users us W = W\<lparr>db := (db W)\<lparr>users := us\<rparr>\<rparr>"

definition set_products :: "doc list \<Rightarrow> world \<Rightarrow> world" where
  "set_products ps W = W\<lparr>db := (db W)\<lparr>products := ps\<rparr>\<rparr>"

section \<open>Helper functions\<close>

definition allowed_file :: "flask_app \<Rightarrow> string \<Rightarrow> bool" where
  "allowed_file A fname =
     (if CHR ''.'' \<in> set fname
      then lower (rsplit1 (CHR ''.'') fname ! 1) \<in> ALLOWED_EXTENSIONS (config A)
      else False)"

text \<open>The session's \<^verbatim>\<open>user_id\<close> is a string, so \<^verbatim>\<open>ObjectId\<close> can only raise InvalidId; the
  session is then cleared. The second component is the session afterwards.\<close>

definition validate_user_session :: "lib \<Rightarrow> session \<Rightarrow> oid option \<times> session" where
  "validate_user_session L S =
     (case sess_user_id S of
        None \<Rightarrow> (None, S)
      | Some u \<Rightarrow>
          (case ObjectId L u of
             Some i \<Rightarrow> (Some i, S)
           | None \<Rightarrow> (None, session_clear)))"

section \<open>Routes\<close>

text \<open>\<^verbatim>\<open>redirect(url_for(endpoint))\<close>.\<close>

definition to :: "string \<Rightarrow> response" where
  "to endpoint = Redirect (Endpoint endpoint)"

subsection \<open>index, logout, dashboard\<close>

definition index :: "world \<Rightarrow> outcome" where
  "index W =
     reply W []
       (Render ''index.html''
          [(''featured_products'', TDocs (take 8 (find_docs (products (db W)) []))),
           (''top_farmers'',
              TDocs (take 4 (find_docs (users (db W)) [(''user_type'', Str ''farmer'')])))])"

definition logout :: "world \<Rightarrow> outcome" where
  "logout W =
     reply (W\<lparr>session := session_clear\<rparr>) [(''You have been logged out'', ''info'')] (to ''index'')"

definition dashboard :: "lib \<Rightarrow> world \<Rightarrow> outcome" where
  "dashboard L W =
     (case validate_user_session L (session W) of
        (uid, S1) \<Rightarrow>
          let W1 = W\<lparr>session := S1\<rparr> in
          (case uid of
             None \<Rightarrow> reply W1 [(''Please login to access dashboard'', ''warning'')] (to ''login'')
           | Some user_id \<Rightarrow>
               (case sess_user_type S1 of
                  None \<Rightarrow> reply W1 [(''Error loading dashboard'', ''error'')] (to ''index'')
                | Some t \<Rightarrow>
                    if t = Str ''farmer''
                    then reply W1 []
                           (Render ''farmers/dashboard.html''
                              [(''products'',
                                  TDocs (find_docs (products (db W1)) [(''farmer_id'', Oid user_id)])),
                               (''orders'',
                                  TDocs (find_docs (orders (db W1)) [(''farmer_id'', Oid user_id)]))])
                    else reply W1 []
                           (Render ''customers/dashboard.html''
                              [(''orders'',
                                  TDocs (find_docs (orders (db W1)) [(''customer_id'', Oid user_id)]))]))))"

subsection \<open>register\<close>

definition register_except :: "world \<Rightarrow> outcome" where
  "register_except W =
     reply W [(''Account creation failed. Please try again.'', ''error'')] (to ''register'')"

text \<open>The farmer-specific fields of the record being assembled.\<close>

definition farmer_fields :: "doc \<Rightarrow> doc" where
  "farmer_fields form_data =
     (if map_of form_data ''user_type'' = Some (Str ''farmer'')
      then
        (let fd = AList.update ''farm_name'' (get_default form_data ''farm_name'' (Str [])) form_data
         in AList.update ''location''
              (Doc [(''address'', get_default fd ''address'' (Str [])),
                    (''city'', get_default fd ''city'' (Str [])),
                    (''state'', get_default fd ''state'' (Str [])),
                    (''zipcode'', get_default fd ''zipcode'' (Str []))]) fd)
      else form_data)"

text \<open>The record of \<^verbatim>\<open>register\<close> once the image path is in it: the password is replaced
  by its hash, the creation time is set, and a farmer gets the farmer's fields.\<close>

definition new_user :: "lib \<Rightarrow> env \<Rightarrow> doc \<Rightarrow> string \<Rightarrow> doc" where
  "new_user L E form_data pw =
     (let form_data = AList.update ''password''
                        (Str (generate_password_hash L (salt E) pw)) form_data;
          form_data = AList.update ''created_at'' (Time (utcnow E)) form_data
      in farmer_fields form_data)"

text \<open>The \<^verbatim>\<open>try\<close> block of \<^verbatim>\<open>register\<close>, from the file upload to the insert.\<close>

definition register_try :: "flask_app \<Rightarrow> lib \<Rightarrow> env \<Rightarrow> world \<Rightarrow> doc \<Rightarrow> file_storage \<Rightarrow> outcome" where
  "register_try A L E W form_data file =
     (if filename file = []
      then reply W [(''Profile picture is required'', ''error'')] (to ''register'')
      else if \<not> allowed_file A (filename file)
      then reply W [(''Only JPG, PNG files are allowed'', ''error'')] (to ''register'')
      else
        let W1 = W\<lparr>fs := makedirs (UPLOAD_FOLDER (config A)) (fs W)\<rparr>;
            timestamp = strftime_compact (now E)
        in case getitem (rsplit1 (CHR ''.'') (secure_filename L (filename file))) 1 of
             Inl e \<Rightarrow> register_except W1
           | Inr x \<Rightarrow>
               let ext = lower x;
                   fname = ''user_'' @ timestamp @ ''.'' @ ext;
                   filepath = os_path_join (UPLOAD_FOLDER (config A)) fname;
                   W2 = W1\<lparr>fs := chmod filepath 420 (save file filepath (fs W1))\<rparr>;
                   form_data = AList.update ''image_url'' (Str (''uploads/'' @ fname)) form_data
               in (case map_of form_data ''password'' of
                     Some (Str pw) \<Rightarrow>
                       (case insert_one (users (db W2)) (new_id E) (new_user L E form_data pw) of
                          Inl e \<Rightarrow> register_except W2
                        | Inr us \<Rightarrow>
                            reply (set_users us W2)
                              [(''Account created successfully! Please login.'', ''success'')]
                              (to ''login''))
                   | _ \<Rightarrow> register_except W2))"

definition register :: "flask_app \<Rightarrow> lib \<Rightarrow> env \<Rightarrow> request \<Rightarrow> world \<Rightarrow> outcome" where
  "register A L E R W =
     (if req_method R = POST
      then
        let form_data = to_dict (form R) in
        if \<not> list_all (\<lambda>field. field \<in> fst ` set form_data)
                [''name'', ''email'', ''password'', ''user_type'']
           \<or> ''profile_picture'' \<notin> fst ` set (files R)
        then reply W [(''Please fill all required fields including profile picture'', ''error'')]
               (to ''register'')
        else (case map_of (files R) ''profile_picture'' of
                None \<Rightarrow> register_except W
              | Some file \<Rightarrow> register_try A L E W form_data file)
      else reply W [] (Render ''auth/register.html'' []))"

subsection \<open>login\<close>

definition login_except :: "world \<Rightarrow> outcome" where
  "login_except W =
     reply W [(''Login failed. Please try again.'', ''error'')] (Render ''auth/login.html'' [])"

definition login_invalid :: "world \<Rightarrow> outcome" where
  "login_invalid W =
     reply W [(''Invalid email or password'', ''error'')] (Render ''auth/login.html'' [])"

definition login_try :: "lib \<Rightarrow> world \<Rightarrow> string \<Rightarrow> string \<Rightarrow> outcome" where
  "login_try L W email password =
     (case find_one (users (db W)) [(''email'', Str email)] of
        None \<Rightarrow> login_invalid W
      | Some user \<Rightarrow>
          (case map_of user ''password'' of
             Some (Str h) \<Rightarrow>
               if check_password_hash L h password
               then
                 (case map_of user ''_id'' of
                    None \<Rightarrow> login_except W
                  | Some i \<Rightarrow>
                      let W1 = W\<lparr>session := (session W)\<lparr>sess_user_id := Some (str_of L i)\<rparr>\<rparr> in
                      (case map_of user ''user_type'' of
                         None \<Rightarrow> login_except W1
                       | Some t \<Rightarrow>
                           reply
                             (W1\<lparr>session := (session W1)
                                   \<lparr>sess_user_type := Some t,
                                    sess_name := Some (get_default user ''name'' (Str ''User''))\<rparr>\<rparr>)
                             [(''Login successful!'', ''success'')] (to ''dashboard'')))
               else login_invalid W
           | _ \<Rightarrow> login_except W))"

definition login :: "lib \<Rightarrow> request \<Rightarrow> world \<Rightarrow> outcome" where
  "login L R W =
     (if req_method R = POST
      then
        (let email = map_of (form R) ''email''; password = map_of (form R) ''password'' in
         if email = None \<or> email = Some [] \<or> password = None \<or> password = Some []
         then reply W [(''Please enter both email and password'', ''error'')] (to ''login'')
         else (case (email, password) of
                 (Some e, Some p) \<Rightarrow> login_try L W e p
               | _ \<Rightarrow> login_except W))
      else reply W [] (Render ''auth/login.html'' []))"

subsection \<open>products\<close>

definition product_list :: "request \<Rightarrow> world \<Rightarrow> outcome" where
  "product_list R W =
     (let category = map_of (args R) ''category'';
          query = (case category of
                     None \<Rightarrow> []
                   | Some c \<Rightarrow> if c \<noteq> [] then [(''category'', Str c)] else [])
      in reply W [] (Render ''products/list.html''
                       [(''products'', TDocs (find_docs (products (db W)) query))]))"

definition product_detail :: "lib \<Rightarrow> string \<Rightarrow> world \<Rightarrow> outcome" where
  "product_detail L product_id W =
     (case ObjectId L product_id of
        None \<Rightarrow> reply W [(''Invalid product ID'', ''error'')] (to ''product_list'')
      | Some i \<Rightarrow>
          (case find_one (products (db W)) [(''_id'', Oid i)] of
             None \<Rightarrow> reply W [(''Product not found'', ''error'')] (to ''product_list'')
           | Some product \<Rightarrow>
               (case map_of product ''farmer_id'' of
                  None \<Rightarrow> reply W [(''Error loading product'', ''error'')] (to ''product_list'')
                | Some f \<Rightarrow>
                    reply W []
                      (Render ''products/detail.html''
                         [(''product'', TDoc product),
                          (''farmer'',
                             (case find_one (users (db W)) [(''_id'', f)] of
                                None \<Rightarrow> TNone
                              | Some farmer \<Rightarrow> TDoc farmer))]))))"

text \<open>The upload and the insert of \<^verbatim>\<open>add_product\<close>, once the form has been read.
  Unlike \<^verbatim>\<open>register\<close> and \<^verbatim>\<open>update_profile_picture\<close>, this handler does not create the
  upload folder: when it is not there \<^verbatim>\<open>file.save\<close> raises, and the \<^verbatim>\<open>except\<close> branch
  answers with nothing written.\<close>

definition add_product_upload ::
  "flask_app \<Rightarrow> lib \<Rightarrow> env \<Rightarrow> request \<Rightarrow> world \<Rightarrow> doc \<Rightarrow> outcome" where
  "add_product_upload A L E R W form_data =
     (case map_of (files R) ''image'' of
        None \<Rightarrow> reply W [(''No file was submitted'', ''error'')] (Redirect (Url (url R)))
      | Some file \<Rightarrow>
          if filename file = []
          then reply W [(''No file selected'', ''error'')] (Redirect (Url (url R)))
          else if allowed_file A (filename file)
          then
            let timestamp = strftime_underscore (now E);
                original_filename = secure_filename L (filename file);
                fname = timestamp @ ''_'' @ original_filename;
                filepath = os_path_join (UPLOAD_FOLDER (config A)) fname
            in if \<not> isdir (fs W) (UPLOAD_FOLDER (config A))
               then reply W [(''Error saving product image'', ''error'')] (Redirect (Url (url R)))
               else
                 let W2 = W\<lparr>fs := chmod filepath 420 (save file filepath (fs W))\<rparr>;
                     fd = form_data @
                       [(''image_url'', Str (url_for_static A L (''uploads/'' @ fname)))]
                 in (case insert_one (products (db W2)) (new_id E) fd of
                       Inl e \<Rightarrow>
                         reply W2 [(''Error saving product image'', ''error'')]
                           (Redirect (Url (url R)))
                     | Inr ps \<Rightarrow>
                         reply (set_products ps W2)
                           [(''Product added successfully!'', ''success'')] (to ''dashboard''))
          else reply W [(''Allowed file types: png, jpg, jpeg, gif'', ''error'')]
                 (Redirect (Url (url R))))"

text \<open>The record that \<^verbatim>\<open>add_product\<close> builds from the form: \<^const>\<open>None\<close> when the price
  or the quantity does not parse (ValueError) or a field is missing (KeyError).\<close>

definition product_form :: "lib \<Rightarrow> env \<Rightarrow> request \<Rightarrow> oid \<Rightarrow> doc option" where
  "product_form L E R user_id =
     (case (map_of (form R) ''price'', map_of (form R) ''quantity'') of
        (Some price, Some quantity) \<Rightarrow>
          (case py_float L price of
             None \<Rightarrow> None
           | Some p \<Rightarrow>
               (case py_int L quantity of
                  None \<Rightarrow> None
                | Some q \<Rightarrow>
                    Some [(''name'', form_get (form R) ''name''),
                          (''category'', form_get (form R) ''category''),
                          (''price'', Flt p),
                          (''quantity'', Num q),
                          (''description'', form_get (form R) ''description''),
                          (''farmer_id'', Oid user_id),
                          (''created_at'', Time (utcnow E)),
                          (''is_organic'', Bool (''is_organic'' \<in> fst ` set (form R)))]))
      | _ \<Rightarrow> None)"

definition add_product :: "flask_app \<Rightarrow> lib \<Rightarrow> env \<Rightarrow> request \<Rightarrow> world \<Rightarrow> outcome" where
  "add_product A L E R W =
     (case validate_user_session L (session W) of
        (uid, S1) \<Rightarrow>
          let W1 = W\<lparr>session := S1\<rparr> in
          (case uid of
             None \<Rightarrow>
               reply W1 [(''Please login as a farmer to add products'', ''warning'')] (to ''login'')
           | Some user_id \<Rightarrow>
               if sess_user_type S1 \<noteq> Some (Str ''farmer'')
               then reply W1 [(''Please login as a farmer to add products'', ''warning'')]
                      (to ''login'')
               else if req_method R = POST
               then
                 if \<not> list_all (\<lambda>field. field \<in> fst ` set (form R))
                         [''name'', ''category'', ''price'', ''quantity'', ''description'']
                 then reply W1 [(''Please fill all required fields'', ''error'')]
                        (Redirect (Url (url R)))
                 else
                   (case product_form L E R user_id of
                      None \<Rightarrow>
                        reply W1 [(''Invalid price or quantity'', ''error'')]
                          (Redirect (Url (url R)))
                    | Some form_data \<Rightarrow> add_product_upload A L E R W1 form_data)
               else reply W1 [] (Render ''products/create.html'' [])))"

subsection \<open>profile updates\<close>

text \<open>The update mapping of \<^verbatim>\<open>update_profile\<close>, before and after the \<^verbatim>\<open>None\<close> values are
  removed. The farmer's \<^verbatim>\<open>location\<close> is a dictionary, never \<^verbatim>\<open>None\<close>.\<close>

definition profile_update_data :: "session \<Rightarrow> (string \<times> string) list \<Rightarrow> doc" where
  "profile_update_data S frm =
     (let update_data =
            [(''name'', form_get frm ''name''),
             (''email'', form_get frm ''email''),
             (''phone'', form_get frm ''phone''),
             (''description'', form_get frm ''description'')];
          update_data =
            (if sess_user_type S = Some (Str ''farmer'')
             then set_fields
                    [(''farm_name'', form_get frm ''farm_name''),
                     (''location'',
                        Doc [(''address'', form_get frm ''address''),
                             (''city'', form_get frm ''city''),
                             (''state'', form_get frm ''state''),
                             (''zipcode'', form_get frm ''zipcode'')])]
                    update_data
             else update_data)
      in filter (\<lambda>(k, v). v \<noteq> Null) update_data)"

definition update_profile :: "lib \<Rightarrow> request \<Rightarrow> world \<Rightarrow> outcome" where
  "update_profile L R W =
     (case validate_user_session L (session W) of
        (uid, S1) \<Rightarrow>
          let W1 = W\<lparr>session := S1\<rparr> in
          (case uid of
             None \<Rightarrow> reply W1 [(''Please login first'', ''warning'')] (to ''login'')
           | Some user_id \<Rightarrow>
               let update_data = profile_update_data S1 (form R) in
               reply
                 (set_users (update_one (users (db W1)) [(''_id'', Oid user_id)] update_data) W1)
                 [(''Profile updated successfully!'', ''success'')] (to ''profile'')))"

definition update_profile_picture ::
  "flask_app \<Rightarrow> lib \<Rightarrow> env \<Rightarrow> request \<Rightarrow> world \<Rightarrow> outcome" where
  "update_profile_picture A L E R W =
     (case validate_user_session L (session W) of
        (uid, S1) \<Rightarrow>
          let W1 = W\<lparr>session := S1\<rparr> in
          (case uid of
             None \<Rightarrow> reply W1 [(''Please login first'', ''warning'')] (to ''login'')
           | Some user_id \<Rightarrow>
               (case map_of (files R) ''profile_picture'' of
                  None \<Rightarrow> reply W1 [(''No file selected'', ''error'')] (to ''profile'')
                | Some file \<Rightarrow>
                    if filename file = []
                    then reply W1 [(''No file selected'', ''error'')] (to ''profile'')
                    else if \<not> allowed_file A (filename file)
                    then reply W1 [(''Allowed file types: png, jpg, jpeg, gif'', ''error'')]
                           (to ''profile'')
                    else
                      let W2 = W1\<lparr>fs := makedirs (UPLOAD_FOLDER (config A)) (fs W1)\<rparr>;
                          timestamp = strftime_compact (now E)
                      in (case getitem (rsplit1 (CHR ''.'') (secure_filename L (filename file))) 1 of
                           Inl e \<Rightarrow>
                             reply W2 [(''Error updating profile picture'', ''error'')]
                               (to ''profile'')
                         | Inr x \<Rightarrow>
                             let ext = lower x;
                                 fname = ''profile_'' @ user_id @ ''_'' @ timestamp @ ''.'' @ ext;
                                 filepath = os_path_join (UPLOAD_FOLDER (config A)) fname;
                                 W3 = W2\<lparr>fs := chmod filepath 420 (save file filepath (fs W2))\<rparr>;
                                 image_url = ''uploads/'' @ fname;
                                 query = [(''_id'', Oid user_id)];
                                 upd = [(''image_url'', Str image_url)];
                                 W4 = set_users (update_one (users (db W3)) query upd) W3
                             in (if modified_count (users (db W3)) query upd = 1
                                 then reply W4
                                        [(''Profile picture updated successfully!'', ''success'')]
                                        (to ''profile'')
                                 else reply W4 [(''Failed to update profile picture'', ''error'')]
                                        (to ''profile''))))))"

text \<open>The links of \<^verbatim>\<open>update_social_links\<close> that are kept: the non-empty ones.\<close>

definition social_links_data :: "(string \<times> string) list \<Rightarrow> doc" where
  "social_links_data frm =
     filter (\<lambda>(k, v). truthy v)
       [(''facebook'', form_get frm ''facebook''),
        (''twitter'', form_get frm ''twitter''),
        (''instagram'', form_get frm ''instagram''),
        (''youtube'', form_get frm ''youtube'')]"

definition update_social_links :: "lib \<Rightarrow> request \<Rightarrow> world \<Rightarrow> outcome" where
  "update_social_links L R W =
     (case validate_user_session L (session W) of
        (uid, S1) \<Rightarrow>
          let W1 = W\<lparr>session := S1\<rparr> in
          (case uid of
             None \<Rightarrow> reply W1 [] (to ''login'')
           | Some user_id \<Rightarrow>
               let social_links = social_links_data (form R) in
               reply
                 (set_users
                    (update_one (users (db W1)) [(''_id'', Oid user_id)]
                       [(''social_links'', Doc social_links)]) W1)
                 [(''Social links updated!'', ''success'')] (to ''profile'')))"

definition change_password_except :: "world \<Rightarrow> outcome" where
  "change_password_except W =
     reply W [(''Failed to change password'', ''error'')] (to ''profile'')"

definition change_password :: "lib \<Rightarrow> env \<Rightarrow> request \<Rightarrow> world \<Rightarrow> outcome" where
  "change_password L E R W =
     (case validate_user_session L (session W) of
        (uid, S1) \<Rightarrow>
          let W1 = W\<lparr>session := S1\<rparr> in
          (case uid of
             None \<Rightarrow> reply W1 [] (to ''login'')
           | Some user_id \<Rightarrow>
               (case map_of (form R) ''current_password'' of
                  None \<Rightarrow> change_password_except W1
                | Some current_password \<Rightarrow>
               (case map_of (form R) ''new_password'' of
                  None \<Rightarrow> change_password_except W1
                | Some new_password \<Rightarrow>
               (case map_of (form R) ''confirm_password'' of
                  None \<Rightarrow> change_password_except W1
                | Some confirm_password \<Rightarrow>
                    if new_password \<noteq> confirm_password
                    then reply W1 [(''New passwords do not match'', ''error'')] (to ''profile'')
                    else
                      (case find_one (users (db W1)) [(''_id'', Oid user_id)] of
                         None \<Rightarrow>
                           reply W1 [(''Current password is incorrect'', ''error'')] (to ''profile'')
                       | Some user \<Rightarrow>
                           (case map_of user ''password'' of
                              Some (Str h) \<Rightarrow>
                                if \<not> check_password_hash L h current_password
                                then reply W1 [(''Current password is incorrect'', ''error'')]
                                       (to ''profile'')
                                else
                                  reply
                                    (set_users
                                       (update_one (users (db W1)) [(''_id'', Oid user_id)]
                                          [(''password'',
                                            Str (generate_password_hash L (salt E) new_password))])
                                       W1)
                                    [(''Password updated successfully!'', ''success'')]
                                    (to ''profile'')
                            | _ \<Rightarrow> change_password_except W1)))))))"

subsection \<open>profile\<close>

definition setdefault :: "string \<Rightarrow> val \<Rightarrow> doc \<Rightarrow> doc" where
  "setdefault k v d = (if k \<in> fst ` set d then d else d @ [(k, v)])"

definition profile_except :: "world \<Rightarrow> outcome" where
  "profile_except W =
     reply W [(''Failed to load profile. Please try again.'', ''error'')] (to ''dashboard'')"

text \<open>\<^verbatim>\<open>app.config['DEFAULT_IMAGES'][default_key]\<close> for the user's role: a KeyError is
  \<^const>\<open>None\<close>.\<close>

definition default_image :: "flask_app \<Rightarrow> doc \<Rightarrow> string option" where
  "default_image A user =
     (let default_key =
            (if map_of user ''user_type'' = Some (Str ''farmer'') then ''farmer'' else ''profile'')
      in case DEFAULT_IMAGES (config A) of
           None \<Rightarrow> None
         | Some images \<Rightarrow> map_of images default_key)"

text \<open>The image of the profile view: the user's dictionary with \<^verbatim>\<open>image_url\<close> resolved, or
  \<^const>\<open>None\<close> when the block raises.\<close>

definition resolve_image :: "flask_app \<Rightarrow> filesystem \<Rightarrow> doc \<Rightarrow> doc option" where
  "resolve_image A F user =
     (let use_default =
            (case default_image A user of
               None \<Rightarrow> None
             | Some p \<Rightarrow> Some (AList.update ''image_url'' (Str p) user))
      in case map_of user ''image_url'' of
           None \<Rightarrow> use_default
         | Some v \<Rightarrow>
             if \<not> truthy v then use_default
             else
               (case v of
                  Str image_url \<Rightarrow>
                    if \<not> path_exists F (os_path_join (static_folder A) image_url)
                    then use_default
                    else Some user
                | _ \<Rightarrow> None))"

text \<open>The dictionary that the profile view builds from the record it found: the
  projected fields, \<^verbatim>\<open>_id\<close> as a string, and the defaults for the missing sub-documents.\<close>

definition profile_user :: "oid \<Rightarrow> doc \<Rightarrow> doc" where
  "profile_user user_id found =
     (let user = project [''name'', ''email'', ''phone'', ''farm_name'', ''location'',
                          ''image_url'', ''social_links'', ''description'', ''user_type''] found;
          user = AList.update ''_id'' (Str user_id) user;
          user = setdefault ''location''
                   (Doc [(''address'', Str []), (''city'', Str []),
                         (''state'', Str []), (''zipcode'', Str [])]) user;
          user = setdefault ''social_links'' (Doc []) user;
          user = setdefault ''description'' (Str []) user
      in user)"

definition profile :: "flask_app \<Rightarrow> lib \<Rightarrow> world \<Rightarrow> outcome" where
  "profile A L W =
     (case validate_user_session L (session W) of
        (uid, S1) \<Rightarrow>
          let W1 = W\<lparr>session := S1\<rparr> in
          (case uid of
             None \<Rightarrow> reply W1 [(''Please login first'', ''warning'')] (to ''login'')
           | Some user_id \<Rightarrow>
               (case find_one (users (db W1)) [(''_id'', Oid user_id)] of
                  None \<Rightarrow>
                    reply (W1\<lparr>session := session_clear\<rparr>) [(''Account not found'', ''error'')]
                      (to ''register'')
                | Some found \<Rightarrow>
                    (case resolve_image A (fs W1) (profile_user user_id found) of
                       None \<Rightarrow> profile_except W1
                     | Some user \<Rightarrow>
                         reply W1 []
                           (Render
                              (if map_of user ''user_type'' = Some (Str ''farmer'')
                               then ''farmers/profile.html''
                               else ''customers/profile.html'')
                              [(''user'', TDoc user)])))))"

section \<open>Notions for the statements\<close>

text \<open>The definitions of this section are not code of the application: they name what the
  statements below speak about.\<close>

text \<open>The record of a successful registration with its file name and password.\<close>

definition registered :: "lib \<Rightarrow> env \<Rightarrow> request \<Rightarrow> string \<Rightarrow> string \<Rightarrow> doc" where
  "registered L E R fname pw =
     with_id (new_id E)
       (new_user L E (AList.update ''image_url'' (Str (''uploads/'' @ fname)) (to_dict (form R))) pw)"

text \<open>\<^verbatim>\<open>form.get(k, '')\<close> as a string.\<close>

definition form_or_empty :: "(string \<times> string) list \<Rightarrow> string \<Rightarrow> string" where
  "form_or_empty frm k = (case map_of frm k of None \<Rightarrow> [] | Some v \<Rightarrow> v)"

definition is_redirect :: "response \<Rightarrow> bool" where
  "is_redirect r = (case r of Redirect t \<Rightarrow> True | Render t c \<Rightarrow> False)"

text \<open>A request is turned away: a message is flashed, the response is a redirect, and
  neither the store nor the files have changed.\<close>

definition rejected :: "world \<Rightarrow> outcome \<Rightarrow> bool" where
  "rejected W out \<longleftrightarrow>
     db (world out) = db W \<and> fs (world out) = fs W \<and> flashes out \<noteq> []
     \<and> is_redirect (response out)"

text \<open>The stored image cannot be shown: there is none, it is empty, or no file is at its
  path under the static folder.\<close>

definition needs_default :: "flask_app \<Rightarrow> filesystem \<Rightarrow> string option \<Rightarrow> bool" where
  "needs_default A F image_url =
     (case image_url of
        None \<Rightarrow> True
      | Some p \<Rightarrow> p = [] \<or> \<not> path_exists F (os_path_join (static_folder A) p))"

text \<open>The \<^verbatim>\<open>password\<close> fields of the user records, in order.\<close>

definition passwords :: "world \<Rightarrow> val option list" where
  "passwords W = map (\<lambda>d. map_of d ''password'') (users (db W))"


section \<open>An instance for evaluation\<close>

text \<open>
  Stand-ins for the library parameters and a small state, on which the handlers are
  evaluated at concrete requests. The stand-in hash is not werkzeug's: it only has the
  shape \<^verbatim>\<open>method$salt$digest\<close>.
\<close>

definition hex24 :: "string \<Rightarrow> oid option" where
  "hex24 s =
     (if length s = 24 \<and> list_all (\<lambda>c. c \<in> set ''0123456789abcdefABCDEF'') s
      then Some (lower s) else None)"

definition toy_lib :: lib where
  "toy_lib =
     \<lparr>generate_password_hash = (\<lambda>salt pw. ''toy$'' @ salt @ ''$'' @ rev pw),
      check_password_hash = (\<lambda>h pw. h = ''toy$na$'' @ rev pw),
      secure_filename = (\<lambda>s. s),
      ObjectId = hex24,
      py_float = (\<lambda>s. if s = ''12.5'' then Some (25 / 2) else None),
      py_int = (\<lambda>s. if s = ''10'' then Some 10 else None),
      py_str = (\<lambda>v. ''?''),
      url_quote = (\<lambda>s. s)\<rparr>"

definition alice :: doc where
  "alice =
     [(''_id'', Oid ''64b7f0c2a1d3e4f5a6b7c8d9''),
      (''name'', Str ''Alice''),
      (''email'', Str ''alice@x.com''),
      (''password'', Str ''toy$na$321terces''),
      (''user_type'', Str ''farmer''),
      (''image_url'', Str ''uploads/user_20240101120000.png''),
      (''created_at'', Time \<lparr>year = 2024, month = 1, day = 1, hour = 12, minute = 0, second = 0\<rparr>),
      (''farm_name'', Str ''Green Acres''),
      (''location'', Doc [(''address'', Str ''1 Farm Rd''), (''city'', Str ''Pune''),
                          (''state'', Str ''MH''), (''zipcode'', Str ''411001'')]),
      (''social_links'', Doc [(''facebook'', Str ''fb.com/alice''), (''twitter'', Str ''x.com/alice'')])]"

definition apples :: doc where
  "apples =
     [(''_id'', Oid ''64b7f0c2a1d3e4f5a6b7c8e0''),
      (''name'', Str ''Apples''),
      (''category'', Str ''fruit''),
      (''price'', Flt (25 / 2)),
      (''quantity'', Num 10),
      (''description'', Str ''Red''),
      (''farmer_id'', Oid ''64b7f0c2a1d3e4f5a6b7c8d9''),
      (''is_organic'', Bool True),
      (''image_url'', Str ''/static/uploads/20240101_120000_apples.png'')]"

definition world0 :: world where
  "world0 =
     \<lparr>db = \<lparr>users = [alice], products = [apples], orders = []\<rparr>,
      session = session_clear,
      fs = [(''/srv/static/uploads'', Directory),
            (''/srv/static/uploads/user_20240101120000.png'', File ''PNG'' (Some 420))]\<rparr>"

definition get_request :: request where
  "get_request = \<lparr>req_method = GET, form = [], files = [], args = [], url = ''/''\<rparr>"

definition env0 :: env where
  "env0 =
     \<lparr>now = \<lparr>year = 2024, month = 3, day = 9, hour = 7, minute = 5, second = 1\<rparr>,
      utcnow = \<lparr>year = 2024, month = 3, day = 9, hour = 1, minute = 35, second = 1\<rparr>,
      salt = ''na'',
      new_id = ''64b7f0c2a1d3e4f5a6b7c8e1''\<rparr>"

definition notes_txt :: file_storage where
  "notes_txt = \<lparr>filename = ''notes.txt'', content = ''hello''\<rparr>"

definition photo_png :: file_storage where
  "photo_png = \<lparr>filename = ''photo.PNG'', content = ''PNG''\<rparr>"

definition register_request :: "file_storage \<Rightarrow> request" where
  "register_request f =
     \<lparr>req_method = POST,
      form = [(''name'', ''Bob''), (''email'', ''bob@x.com''), (''password'', ''secret123''),
              (''user_type'', ''customer'')],
      files = [(''profile_picture'', f)],
      args = [],
      url = ''/register''\<rparr>"

definition alice_session :: session where
  "alice_session =
     \<lparr>sess_user_id = Some ''64b7f0c2a1d3e4f5a6b7c8d9'',
      sess_user_type = Some (Str ''farmer''),
      sess_name = Some (Str ''Alice'')\<rparr>"

definition world1 :: world where
  "world1 = world0\<lparr>session := alice_session\<rparr>"

definition post :: "(string \<times> string) list \<Rightarrow> request" where
  "post frm = \<lparr>req_method = POST, form = frm, files = [], args = [], url = ''/''\<rparr>"

text \<open>The same state after Alice's picture has been removed from the disk.\<close>

definition world2 :: world where
  "world2 = world1\<lparr>fs := []\<rparr>"

definition post_file :: "(string \<times> string) list \<Rightarrow> string \<Rightarrow> file_storage \<Rightarrow> request" where
  "post_file frm k f = \<lparr>req_method = POST, form = frm, files = [(k, f)], args = [], url = ''/''\<rparr>"


section \<open>Lookups in dictionaries\<close>

text \<open>A dictionary is read through \<^const>\<open>map_of\<close>: what appending, filtering,
  reversing and \<^verbatim>\<open>$set\<close> do to a lookup, and what a form is as a dictionary.\<close>

lemma in_keys_iff: "k \<in> fst ` set xs \<longleftrightarrow> map_of xs k \<noteq> None"
  by (simp add: map_of_eq_None_iff)

lemma map_of_snoc:
  "map_of (d @ [(k, v)]) x = (case map_of d x of None \<Rightarrow> (if x = k then Some v else None) | Some y \<Rightarrow> Some y)"
  by (induction d) auto

lemma map_of_filter_key:
  "map_of (filter (\<lambda>(k, v). P k) d) x = (if P x then map_of d x else None)"
  by (induction d) auto

lemma map_of_rev_distinct:
  assumes "distinct (map fst xs)"
  shows "map_of (rev xs) k = map_of xs k"
  using assms
proof (induction xs)
  case Nil
  show ?case by simp
next
  case (Cons p xs)
  obtain a b where p: "p = (a, b)" by (cases p)
  from Cons.prems p have "map_of xs a = None"
    by (simp add: map_of_eq_None_iff)
  with Cons p show ?case
    by (auto simp add: map_of_snoc simp del: map_of_append split: option.splits)
qed

lemma map_of_filter_value:
  assumes "distinct (map fst xs)"
  shows "map_of (filter (\<lambda>(k, v). P v) xs) k =
     (case map_of xs k of None \<Rightarrow> None | Some v \<Rightarrow> if P v then Some v else None)"
  using assms
proof (induction xs)
  case Nil
  show ?case by simp
next
  case (Cons p xs)
  obtain a b where p: "p = (a, b)" by (cases p)
  from Cons.prems p have "map_of xs a = None"
    by (simp add: map_of_eq_None_iff)
  with Cons p show ?case
    by (auto split: option.splits)
qed

lemma map_of_set_fields:
  "map_of (set_fields u d) k = (case map_of (rev u) k of None \<Rightarrow> map_of d k | Some v \<Rightarrow> Some v)"
proof (induction u arbitrary: d)
  case Nil
  show ?case by (simp add: set_fields_def)
next
  case (Cons p u)
  obtain a b where p: "p = (a, b)" by (cases p)
  have "set_fields (p # u) d = set_fields u (AList.update a b d)"
    by (simp add: set_fields_def p)
  with Cons.IH [of "AList.update a b d"] p show ?case
    by (auto simp add: map_of_snoc update_conv' simp del: map_of_append split: option.splits)
qed

lemma to_dict_fold:
  "map_of (fold (\<lambda>(k, v) d. if k \<in> fst ` set d then d else d @ [(k, Str v)]) frm acc) x =
     (case map_of acc x of Some y \<Rightarrow> Some y | None \<Rightarrow> map_option Str (map_of frm x))"
proof (induction frm arbitrary: acc)
  case Nil
  show ?case by (simp split: option.splits)
next
  case (Cons p frm)
  obtain k v where p: "p = (k, v)" by (cases p)
  show ?case
  proof (cases "k \<in> fst ` set acc")
    case True
    then have "map_of acc k \<noteq> None"
      by (simp add: map_of_eq_None_iff)
    with True p Cons.IH [of acc] show ?thesis
      by (auto split: option.splits)
  next
    case False
    then have "map_of acc k = None"
      by (simp add: map_of_eq_None_iff)
    with False p Cons.IH [of "acc @ [(k, Str v)]"] show ?thesis
      by (auto simp add: map_of_snoc simp del: map_of_append split: option.splits)
  qed
qed

lemma map_of_to_dict: "map_of (to_dict frm) k = map_option Str (map_of frm k)"
  by (simp add: to_dict_def to_dict_fold)

lemma keys_to_dict: "fst ` set (to_dict frm) = fst ` set frm"
proof -
  have "dom (map_of (to_dict frm)) = dom (map_of frm)"
    by (auto simp add: map_of_to_dict dom_def)
  then show ?thesis
    by (simp add: dom_map_of_conv_image_fst)
qed

lemma form_get_not_null:
  "(if form_get frm k \<noteq> Null then Some (form_get frm k) else None) = map_option Str (map_of frm k)"
  by (simp add: form_get_def split: option.splits)

section \<open>Allowed file names\<close>

text \<open>
  \<^const>\<open>allowed_file\<close> in the words of the specification: a name is allowed exactly
  when it splits at a last dot into a stem and an extension whose lower-case form is in
  the allow-list.
\<close>

lemma rsplit1_last_dot:
  assumes "sep \<notin> set ext"
  shows "rsplit1 sep (pre @ sep # ext) = [pre, ext]"
proof -
  have r: "rev (pre @ sep # ext) = rev ext @ sep # rev pre"
    by simp
  have t: "takeWhile (\<lambda>c. c \<noteq> sep) (rev ext @ sep # rev pre) = rev ext"
    by (subst takeWhile_append2) (use assms in auto)
  have d: "dropWhile (\<lambda>c. c \<noteq> sep) (rev ext @ sep # rev pre) = sep # rev pre"
    by (subst dropWhile_append2) (use assms in auto)
  show ?thesis
    unfolding rsplit1_def r t d by simp
qed

lemma allowed_file_split:
  assumes "CHR ''.'' \<notin> set ext"
  shows "allowed_file A (pre @ ''.'' @ ext) \<longleftrightarrow> lower ext \<in> ALLOWED_EXTENSIONS (config A)"
  using assms by (simp add: allowed_file_def rsplit1_last_dot)

lemma allowed_file_no_dot: "CHR ''.'' \<notin> set fname \<Longrightarrow> \<not> allowed_file A fname"
  by (simp add: allowed_file_def)

lemma allowed_file_iff:
  "allowed_file A fname \<longleftrightarrow>
     (\<exists>pre ext. fname = pre @ ''.'' @ ext \<and> CHR ''.'' \<notin> set ext
        \<and> lower ext \<in> ALLOWED_EXTENSIONS (config A))"
proof
  assume a: "allowed_file A fname"
  then have dot: "CHR ''.'' \<in> set fname"
    by (auto simp add: allowed_file_def split: if_splits)
  then obtain pre ext where s: "fname = pre @ CHR ''.'' # ext" and e: "CHR ''.'' \<notin> set ext"
    by (meson split_list_last)
  from a s e have "lower ext \<in> ALLOWED_EXTENSIONS (config A)"
    using allowed_file_split [of ext A pre] by simp
  with s e show "\<exists>pre ext. fname = pre @ ''.'' @ ext \<and> CHR ''.'' \<notin> set ext
        \<and> lower ext \<in> ALLOWED_EXTENSIONS (config A)"
    by auto
next
  assume "\<exists>pre ext. fname = pre @ ''.'' @ ext \<and> CHR ''.'' \<notin> set ext
        \<and> lower ext \<in> ALLOWED_EXTENSIONS (config A)"
  then show "allowed_file A fname"
    using allowed_file_split by blast
qed

lemma bad_name_not_allowed:
  assumes "CHR ''.'' \<notin> set fname
     \<or> (\<exists>pre ext. fname = pre @ ''.'' @ ext \<and> CHR ''.'' \<notin> set ext
           \<and> lower ext \<notin> {''png'', ''jpg'', ''jpeg'', ''gif''})"
  shows "\<not> allowed_file (app basedir) fname"
  using assms allowed_file_no_dot allowed_file_split
  by (auto simp add: app_def Config_def)

text \<open>Each upload handler turns a disallowed name away before it touches the store or
  the files.\<close>

lemma register_rejects:
  assumes "req_method R = POST"
    and "map_of (files R) ''profile_picture'' = Some f"
    and "\<not> allowed_file A (filename f)"
  shows "rejected W (register A L E R W)"
  using assms
  by (simp add: register_def register_try_def reply_def to_def Let_def rejected_def
      is_redirect_def)

lemma update_profile_picture_rejects:
  assumes "map_of (files R) ''profile_picture'' = Some f"
    and "\<not> allowed_file A (filename f)"
  shows "rejected W (update_profile_picture A L E R W)"
  using assms
  by (simp add: update_profile_picture_def reply_def to_def Let_def rejected_def is_redirect_def
      split: prod.splits option.splits)

lemma add_product_upload_rejects:
  assumes "map_of (files R) ''image'' = Some f"
    and "\<not> allowed_file A (filename f)"
  shows "world (add_product_upload A L E R W fd) = W
    \<and> flashes (add_product_upload A L E R W fd) \<noteq> []
    \<and> is_redirect (response (add_product_upload A L E R W fd))"
  using assms
  by (simp add: add_product_upload_def reply_def is_redirect_def)

lemma add_product_rejects:
  assumes "req_method R = POST"
    and "map_of (files R) ''image'' = Some f"
    and "\<not> allowed_file A (filename f)"
  shows "rejected W (add_product A L E R W)"
proof (cases "validate_user_session L (session W)")
  case (Pair uid S1)
  note r = add_product_upload_rejects [OF assms(2,3)]
  show ?thesis
    using Pair assms(1) r
    by (simp add: add_product_def Let_def reply_def to_def rejected_def is_redirect_def
        split: option.splits)
qed

section \<open>Sessions\<close>

text \<open>A session that validates is left as it is.\<close>

lemma validate_user_session_Some:
  assumes "validate_user_session L S = (Some uid, S1)"
  shows "S1 = S \<and> (\<exists>u. sess_user_id S = Some u \<and> ObjectId L u = Some uid)"
  using assms by (auto simp add: validate_user_session_def split: option.splits)

lemma alice_logged_in:
  "validate_user_session toy_lib (session world1) = (Some ''64b7f0c2a1d3e4f5a6b7c8d9'', session world1)"
  by (simp add: world1_def alice_session_def validate_user_session_def toy_lib_def hex24_def
      lower_def lower_char_def)

section \<open>The profile view\<close>

text \<open>Lookups in the dictionary the view builds, and the two outcomes of the image
  block: with default images configured, and without.\<close>

lemma map_of_project:
  "map_of (project keep d) k = (if k = ''_id'' \<or> k \<in> set keep then map_of d k else None)"
  unfolding project_def by (rule map_of_filter_key)

lemma map_of_setdefault:
  "map_of (setdefault k v d) x =
     (if x = k \<and> map_of d k = None then Some v else map_of d x)"
proof (cases "k \<in> fst ` set d")
  case True
  then have "map_of d k \<noteq> None"
    by (simp add: map_of_eq_None_iff)
  with True show ?thesis
    by (simp add: setdefault_def)
next
  case False
  then have "map_of d k = None"
    by (simp add: map_of_eq_None_iff)
  with False show ?thesis
    by (auto simp add: setdefault_def map_of_snoc simp del: map_of_append split: option.splits)
qed

lemma profile_user_image: "map_of (profile_user uid found) ''image_url'' = map_of found ''image_url''"
  by (simp add: profile_user_def Let_def map_of_setdefault map_of_project update_conv')

lemma profile_user_type: "map_of (profile_user uid found) ''user_type'' = map_of found ''user_type''"
  by (simp add: profile_user_def Let_def map_of_setdefault map_of_project update_conv')

lemma profile_found:
  assumes "validate_user_session L (session W) = (Some uid, S)"
    and "find_one (users (db W)) [(''_id'', Oid uid)] = Some found"
  shows "profile A L W =
     (case resolve_image A (fs W) (profile_user uid found) of
        None \<Rightarrow> profile_except W
      | Some user \<Rightarrow>
          reply W []
            (Render (if map_of user ''user_type'' = Some (Str ''farmer'')
                     then ''farmers/profile.html'' else ''customers/profile.html'')
               [(''user'', TDoc user)]))"
proof -
  from validate_user_session_Some [OF assms(1)] have s: "S = session W"
    by simp
  show ?thesis
    using assms unfolding s
    by (simp add: profile_def Let_def split: option.splits)
qed

lemma resolve_image_configured:
  assumes "DEFAULT_IMAGES (config A) = Some images"
    and "map_of images ''farmer'' = Some farmer_default"
    and "map_of images ''profile'' = Some generic_default"
    and "map_of user ''image_url'' = map_option Str image_url"
  shows "\<exists>shown. resolve_image A F user = Some shown
     \<and> map_of shown ''user_type'' = map_of user ''user_type''
     \<and> map_of shown ''image_url'' =
         Some (Str (if needs_default A F image_url
                    then (if map_of user ''user_type'' = Some (Str ''farmer'')
                          then farmer_default else generic_default)
                    else the image_url))"
  using assms
  by (cases image_url)
     (auto simp add: resolve_image_def default_image_def needs_default_def Let_def update_conv')

lemma resolve_image_unconfigured:
  assumes "DEFAULT_IMAGES (config A) = None"
    and "map_of user ''image_url'' = map_option Str image_url"
    and "needs_default A F image_url"
  shows "resolve_image A F user = None"
  using assms
  by (cases image_url)
     (auto simp add: resolve_image_def default_image_def needs_default_def Let_def)

lemma profile_image_configured:
  assumes "validate_user_session L (session W) = (Some uid, S)"
    and "find_one (users (db W)) [(''_id'', Oid uid)] = Some found"
    and "map_of found ''image_url'' = map_option Str image_url"
    and "DEFAULT_IMAGES (config A) = Some images"
    and "map_of images ''farmer'' = Some farmer_default"
    and "map_of images ''profile'' = Some generic_default"
  shows "\<exists>shown. world (profile A L W) = W \<and> flashes (profile A L W) = []
     \<and> response (profile A L W) =
         Render (if map_of found ''user_type'' = Some (Str ''farmer'')
                 then ''farmers/profile.html'' else ''customers/profile.html'')
           [(''user'', TDoc shown)]
     \<and> map_of shown ''image_url'' =
         Some (Str (if needs_default A (fs W) image_url
                    then (if map_of found ''user_type'' = Some (Str ''farmer'')
                          then farmer_default else generic_default)
                    else the image_url))"
proof -
  have i: "map_of (profile_user uid found) ''image_url'' = map_option Str image_url"
    using assms(3) by (simp add: profile_user_image)
  from resolve_image_configured [OF assms(4,5,6) i, of "fs W"]
  obtain shown where r: "resolve_image A (fs W) (profile_user uid found) = Some shown"
    and t: "map_of shown ''user_type'' = map_of found ''user_type''"
    and u: "map_of shown ''image_url'' =
         Some (Str (if needs_default A (fs W) image_url
                    then (if map_of found ''user_type'' = Some (Str ''farmer'')
                          then farmer_default else generic_default)
                    else the image_url))"
    by (auto simp add: profile_user_type)
  show ?thesis
    using profile_found [OF assms(1,2), of A] r t u
    by (simp add: reply_def)
qed

lemma profile_image_unconfigured:
  assumes "validate_user_session L (session W) = (Some uid, S)"
    and "find_one (users (db W)) [(''_id'', Oid uid)] = Some found"
    and "map_of found ''image_url'' = map_option Str image_url"
    and "needs_default (app basedir) (fs W) image_url"
  shows "profile (app basedir) L W =
     reply W [(''Failed to load profile. Please try again.'', ''error'')] (to ''dashboard'')"
proof -
  have c: "DEFAULT_IMAGES (config (app basedir)) = None"
    by (simp add: app_def Config_def)
  have i: "map_of (profile_user uid found) ''image_url'' = map_option Str image_url"
    using assms(3) by (simp add: profile_user_image)
  from resolve_image_unconfigured [OF c i assms(4)]
  show ?thesis
    using profile_found [OF assms(1,2), of "app basedir"]
    by (simp add: profile_except_def)
qed

section \<open>Registration\<close>

text \<open>What a form becomes as a dictionary, and what the inserted record holds.\<close>

lemma map_of_with_id:
  "map_of (with_id fresh d) k =
     (if k = ''_id'' \<and> map_of d ''_id'' = None then Some (Oid fresh) else map_of d k)"
proof (cases "''_id'' \<in> fst ` set d")
  case True
  then have "map_of d ''_id'' \<noteq> None"
    by (simp add: map_of_eq_None_iff)
  with True show ?thesis
    by (simp add: with_id_def)
next
  case False
  then have "map_of d ''_id'' = None"
    by (simp add: map_of_eq_None_iff)
  with False show ?thesis
    by (auto simp add: with_id_def map_of_snoc simp del: map_of_append split: option.splits)
qed

lemma insert_one_Inr:
  assumes "insert_one coll fresh d = Inr us"
  shows "us = coll @ [with_id fresh d]"
  using assms by (simp add: insert_one_def Let_def split: if_splits)

text \<open>The fields of the record that registration inserts, one key at a time.\<close>

lemma map_of_farmer_fields:
  "map_of (farmer_fields fd) k =
     (if map_of fd ''user_type'' = Some (Str ''farmer'')
      then (if k = ''location''
            then Some (Doc [(''address'', get_default fd ''address'' (Str [])),
                            (''city'', get_default fd ''city'' (Str [])),
                            (''state'', get_default fd ''state'' (Str [])),
                            (''zipcode'', get_default fd ''zipcode'' (Str []))])
            else if k = ''farm_name'' then Some (get_default fd ''farm_name'' (Str []))
            else map_of fd k)
      else map_of fd k)"
  by (simp add: farmer_fields_def Let_def update_conv' get_default_def)

lemma map_of_new_user:
  "map_of (new_user L E fd pw) k =
     (if map_of fd ''user_type'' = Some (Str ''farmer'') \<and> k = ''location''
      then Some (Doc [(''address'', get_default fd ''address'' (Str [])),
                      (''city'', get_default fd ''city'' (Str [])),
                      (''state'', get_default fd ''state'' (Str [])),
                      (''zipcode'', get_default fd ''zipcode'' (Str []))])
      else if map_of fd ''user_type'' = Some (Str ''farmer'') \<and> k = ''farm_name''
      then Some (get_default fd ''farm_name'' (Str []))
      else if k = ''created_at'' then Some (Time (utcnow E))
      else if k = ''password'' then Some (Str (generate_password_hash L (salt E) pw))
      else map_of fd k)"
  by (simp add: new_user_def Let_def map_of_farmer_fields update_conv' get_default_def)

lemma path_exists_saved: "path_exists (chmod p m (save file p F)) p"
  by (simp add: path_exists_def chmod_def save_def dom_map_entry dom_update)

lemma register_try_success:
  assumes "response (register_try A L E W fd file) = to ''login''"
  shows "\<exists>x pw us.
      allowed_file A (filename file)
      \<and> getitem (rsplit1 (CHR ''.'') (secure_filename L (filename file))) 1 = Inr x
      \<and> map_of fd ''password'' = Some (Str pw)
      \<and> insert_one (users (db W)) (new_id E)
           (new_user L E
              (AList.update ''image_url''
                 (Str (''uploads/'' @ ''user_'' @ strftime_compact (now E) @ ''.'' @ lower x)) fd) pw)
          = Inr us
      \<and> register_try A L E W fd file =
          reply
            (set_users us
               (W\<lparr>fs := chmod (os_path_join (UPLOAD_FOLDER (config A))
                                (''user_'' @ strftime_compact (now E) @ ''.'' @ lower x)) 420
                           (save file
                              (os_path_join (UPLOAD_FOLDER (config A))
                                 (''user_'' @ strftime_compact (now E) @ ''.'' @ lower x))
                              (makedirs (UPLOAD_FOLDER (config A)) (fs W)))\<rparr>))
            [(''Account created successfully! Please login.'', ''success'')] (to ''login'')"
proof -
  have ne: "to ''register'' \<noteq> to ''login''"
    by (simp add: to_def)
  from assms ne have f: "filename file \<noteq> []"
    by (auto simp add: register_try_def reply_def split: if_splits)
  from assms ne f have al: "allowed_file A (filename file)"
    by (auto simp add: register_try_def reply_def split: if_splits)
  obtain x where x: "getitem (rsplit1 (CHR ''.'') (secure_filename L (filename file))) 1 = Inr x"
    using assms ne f al
    by (cases "getitem (rsplit1 (CHR ''.'') (secure_filename L (filename file))) 1")
       (auto simp add: register_try_def reply_def register_except_def Let_def)
  let ?fname = "''user_'' @ strftime_compact (now E) @ ''.'' @ lower x"
  let ?fd = "AList.update ''image_url'' (Str (''uploads/'' @ ?fname)) fd"
  obtain pw where pw: "map_of ?fd ''password'' = Some (Str pw)"
    using assms ne f al x
    by (cases "map_of ?fd ''password''")
       (auto simp add: register_try_def reply_def register_except_def Let_def split: val.splits)
  then have pw': "map_of fd ''password'' = Some (Str pw)"
    by (simp add: update_conv')
  let ?W2 = "W\<lparr>fs := chmod (os_path_join (UPLOAD_FOLDER (config A)) ?fname) 420
                        (save file (os_path_join (UPLOAD_FOLDER (config A)) ?fname)
                           (makedirs (UPLOAD_FOLDER (config A)) (fs W)))\<rparr>"
  obtain us where us: "insert_one (users (db W)) (new_id E) (new_user L E ?fd pw) = Inr us"
    using assms ne f al x pw
    by (cases "insert_one (users (db W)) (new_id E) (new_user L E ?fd pw)")
       (auto simp add: register_try_def reply_def register_except_def Let_def)
  have "register_try A L E W fd file =
          reply (set_users us ?W2)
            [(''Account created successfully! Please login.'', ''success'')] (to ''login'')"
    using f al x pw us
    by (simp add: register_try_def Let_def)
  with al x pw' us show ?thesis
    by blast
qed

lemma register_success:
  assumes "response (register A L E R W) = to ''login''"
  shows "\<exists>file x pw.
      req_method R = POST
      \<and> map_of (files R) ''profile_picture'' = Some file
      \<and> allowed_file A (filename file)
      \<and> getitem (rsplit1 (CHR ''.'') (secure_filename L (filename file))) 1 = Inr x
      \<and> map_of (form R) ''password'' = Some pw
      \<and> users (db (world (register A L E R W))) =
          users (db W) @ [registered L E R (''user_'' @ strftime_compact (now E) @ ''.'' @ lower x) pw]
      \<and> products (db (world (register A L E R W))) = products (db W)
      \<and> orders (db (world (register A L E R W))) = orders (db W)
      \<and> path_exists (fs (world (register A L E R W)))
           (os_path_join (UPLOAD_FOLDER (config A))
              (''user_'' @ strftime_compact (now E) @ ''.'' @ lower x))"
proof -
  have ne: "to ''register'' \<noteq> to ''login''"
    by (simp add: to_def)
  from assms have m: "req_method R = POST"
    by (auto simp add: register_def reply_def to_def split: if_splits)
  from assms ne m have k: "list_all (\<lambda>field. field \<in> fst ` set (to_dict (form R)))
                [''name'', ''email'', ''password'', ''user_type'']
           \<and> ''profile_picture'' \<in> fst ` set (files R)"
    by (auto simp add: register_def reply_def Let_def split: if_splits)
  from k obtain upl where fl: "map_of (files R) ''profile_picture'' = Some upl"
    by (auto simp add: in_keys_iff)
  from m k fl have t: "register A L E R W = register_try A L E W (to_dict (form R)) upl"
    by (simp add: register_def Let_def)
  from assms t have "response (register_try A L E W (to_dict (form R)) upl) = to ''login''"
    by simp
  from register_try_success [OF this]
  obtain x pw us where al: "allowed_file A (filename upl)"
    and x: "getitem (rsplit1 (CHR ''.'') (secure_filename L (filename upl))) 1 = Inr x"
    and pw: "map_of (to_dict (form R)) ''password'' = Some (Str pw)"
    and us: "insert_one (users (db W)) (new_id E)
           (new_user L E
              (AList.update ''image_url''
                 (Str (''uploads/'' @ ''user_'' @ strftime_compact (now E) @ ''.'' @ lower x))
                 (to_dict (form R))) pw) = Inr us"
    and r: "register_try A L E W (to_dict (form R)) upl =
          reply
            (set_users us
               (W\<lparr>fs := chmod (os_path_join (UPLOAD_FOLDER (config A))
                                (''user_'' @ strftime_compact (now E) @ ''.'' @ lower x)) 420
                           (save upl
                              (os_path_join (UPLOAD_FOLDER (config A))
                                 (''user_'' @ strftime_compact (now E) @ ''.'' @ lower x))
                              (makedirs (UPLOAD_FOLDER (config A)) (fs W)))\<rparr>))
            [(''Account created successfully! Please login.'', ''success'')] (to ''login'')"
    by blast
  from pw have pw': "map_of (form R) ''password'' = Some pw"
    by (auto simp add: map_of_to_dict)
  from insert_one_Inr [OF us]
  have u: "us = users (db W) @
      [registered L E R (''user_'' @ strftime_compact (now E) @ ''.'' @ lower x) pw]"
    by (simp add: registered_def)
  show ?thesis
    using m fl al x pw' u
    by (simp add: t r reply_def set_users_def path_exists_saved)
qed

lemma map_of_new_record:
  "map_of (with_id fresh (new_user L E (AList.update ''image_url'' img (to_dict frm)) pw)) k =
     (if map_of frm ''user_type'' = Some ''farmer'' \<and> k = ''location''
      then Some (Doc [(''address'', Str (form_or_empty frm ''address'')),
                      (''city'', Str (form_or_empty frm ''city'')),
                      (''state'', Str (form_or_empty frm ''state'')),
                      (''zipcode'', Str (form_or_empty frm ''zipcode''))])
      else if map_of frm ''user_type'' = Some ''farmer'' \<and> k = ''farm_name''
      then Some (Str (form_or_empty frm ''farm_name''))
      else if k = ''created_at'' then Some (Time (utcnow E))
      else if k = ''password'' then Some (Str (generate_password_hash L (salt E) pw))
      else if k = ''image_url'' then Some img
      else if k = ''_id'' \<and> map_of frm ''_id'' = None then Some (Oid fresh)
      else map_option Str (map_of frm k))"
proof -
  let ?fd = "AList.update ''image_url'' img (to_dict frm)"
  have fd: "\<And>x. map_of ?fd x =
      (if x = ''image_url'' then Some img else map_option Str (map_of frm x))"
    by (simp add: update_conv' map_of_to_dict)
  have g: "\<And>x. x \<noteq> ''image_url'' \<Longrightarrow>
      get_default ?fd x (Str []) = Str (form_or_empty frm x)"
    by (simp add: get_default_def fd form_or_empty_def split: option.splits)
  have ut: "map_of ?fd ''user_type'' = Some (Str ''farmer'')
      \<longleftrightarrow> map_of frm ''user_type'' = Some ''farmer''"
    by (auto simp add: fd)
  have nu: "\<And>x. map_of (new_user L E ?fd pw) x =
     (if map_of frm ''user_type'' = Some ''farmer'' \<and> x = ''location''
      then Some (Doc [(''address'', Str (form_or_empty frm ''address'')),
                      (''city'', Str (form_or_empty frm ''city'')),
                      (''state'', Str (form_or_empty frm ''state'')),
                      (''zipcode'', Str (form_or_empty frm ''zipcode''))])
      else if map_of frm ''user_type'' = Some ''farmer'' \<and> x = ''farm_name''
      then Some (Str (form_or_empty frm ''farm_name''))
      else if x = ''created_at'' then Some (Time (utcnow E))
      else if x = ''password'' then Some (Str (generate_password_hash L (salt E) pw))
      else if x = ''image_url'' then Some img
      else map_option Str (map_of frm x))"
    unfolding map_of_new_user ut
    by (simp add: g fd)
  show ?thesis
    unfolding map_of_with_id nu
    by simp
qed

lemma map_of_registered:
  "map_of (registered L E R fname pw) k =
     (if map_of (form R) ''user_type'' = Some ''farmer'' \<and> k = ''location''
      then Some (Doc [(''address'', Str (form_or_empty (form R) ''address'')),
                      (''city'', Str (form_or_empty (form R) ''city'')),
                      (''state'', Str (form_or_empty (form R) ''state'')),
                      (''zipcode'', Str (form_or_empty (form R) ''zipcode''))])
      else if map_of (form R) ''user_type'' = Some ''farmer'' \<and> k = ''farm_name''
      then Some (Str (form_or_empty (form R) ''farm_name''))
      else if k = ''created_at'' then Some (Time (utcnow E))
      else if k = ''password'' then Some (Str (generate_password_hash L (salt E) pw))
      else if k = ''image_url'' then Some (Str (''uploads/'' @ fname))
      else if k = ''_id'' \<and> map_of (form R) ''_id'' = None then Some (Oid (new_id E))
      else map_option Str (map_of (form R) k))"
  unfolding registered_def by (rule map_of_new_record)

lemma register_required:
  assumes "response (register A L E R W) = to ''login''"
  shows "\<exists>ut. map_of (form R) ''user_type'' = Some ut"
proof -
  have ne: "to ''register'' \<noteq> to ''login''"
    by (simp add: to_def)
  from assms have m: "req_method R = POST"
    by (auto simp add: register_def reply_def to_def split: if_splits)
  from assms ne m have "''user_type'' \<in> fst ` set (to_dict (form R))"
    by (auto simp add: register_def reply_def Let_def split: if_splits)
  then show ?thesis
    by (simp add: keys_to_dict in_keys_iff)
qed

lemma register_failure:
  "response (register A L E R W) = to ''login'' \<or> db (world (register A L E R W)) = db W"
proof (cases "map_of (files R) ''profile_picture''")
  case None
  then show ?thesis
    by (simp add: register_def register_except_def reply_def Let_def)
next
  case (Some upl)
  have "response (register_try A L E W fd upl) = to ''login''
     \<or> db (world (register_try A L E W fd upl)) = db W" for fd
    by (simp add: register_try_def register_except_def reply_def Let_def
        split: sum.splits option.splits val.splits)
  with Some show ?thesis
    by (simp add: register_def reply_def Let_def)
qed

lemma bob_registered:
  "response (register (app ''/srv'') toy_lib env0 (register_request photo_png) world0) = to ''login''"
  by (simp add:
      register_def register_try_def register_except_def new_user_def farmer_fields_def
      get_default_def to_dict_def allowed_file_def rsplit1_def lower_def lower_char_def
      getitem_def makedirs_def save_def chmod_def os_path_join_def strftime_compact_def
      pad2_def pad4_def digit_def insert_one_def with_id_def set_users_def reply_def to_def
      Let_def app_def Config_def register_request_def world0_def alice_def apples_def
      toy_lib_def env0_def photo_png_def)

lemma toy_hash_differs: "generate_password_hash toy_lib s p \<noteq> p"
proof
  assume "generate_password_hash toy_lib s p = p"
  then have "length (''toy$'' @ s @ ''$'' @ rev p) = length p"
    by (simp add: toy_lib_def)
  then show False
    by simp
qed

section \<open>Updates of the store\<close>

text \<open>What \<^verbatim>\<open>update_one\<close> does to a collection: every record but the first match
  stays, and the match gets the fields.\<close>

lemma length_update_one: "length (update_one coll q u) = length coll"
  by (induction coll) auto

lemma update_one_nth:
  assumes "i < length coll"
  shows "update_one coll q u ! i = coll ! i
     \<or> (matches q (coll ! i) \<and> update_one coll q u ! i = set_fields u (coll ! i))"
  using assms
proof (induction coll arbitrary: i)
  case Nil
  then show ?case by simp
next
  case (Cons d ds)
  then show ?case
    by (cases i) auto
qed

text \<open>An update that leaves the fields of the filter alone keeps the matched record the
  first match.\<close>

lemma update_one_found:
  assumes "find_one coll q = Some d"
    and "matches q (set_fields u d)"
  shows "find_one (update_one coll q u) q = Some (set_fields u d)"
  using assms
  by (induction coll) (auto simp add: find_one_def split: if_splits)

lemma matches_id: "matches [(''_id'', v)] d \<longleftrightarrow> map_of d ''_id'' = Some v"
  by (simp add: matches_def)


section \<open>Update mappings\<close>

text \<open>The update mappings of \<^verbatim>\<open>update_profile\<close> and \<^verbatim>\<open>update_social_links\<close>, key
  by key.\<close>

lemma profile_update_data_list:
  "profile_update_data S frm =
     filter (\<lambda>(k, v). v \<noteq> Null)
       ([(''name'', form_get frm ''name''),
         (''email'', form_get frm ''email''),
         (''phone'', form_get frm ''phone''),
         (''description'', form_get frm ''description'')] @
        (if sess_user_type S = Some (Str ''farmer'')
         then [(''farm_name'', form_get frm ''farm_name''),
               (''location'',
                  Doc [(''address'', form_get frm ''address''),
                       (''city'', form_get frm ''city''),
                       (''state'', form_get frm ''state''),
                       (''zipcode'', form_get frm ''zipcode'')])]
         else []))"
  by (simp add: profile_update_data_def Let_def set_fields_def)

lemma map_of_profile_update_data:
  "map_of (profile_update_data S frm) k =
     (if k \<in> {''name'', ''email'', ''phone'', ''description''}
      then map_option Str (map_of frm k)
      else if sess_user_type S = Some (Str ''farmer'') \<and> k = ''farm_name''
      then map_option Str (map_of frm k)
      else if sess_user_type S = Some (Str ''farmer'') \<and> k = ''location''
      then Some (Doc [(''address'', form_get frm ''address''),
                      (''city'', form_get frm ''city''),
                      (''state'', form_get frm ''state''),
                      (''zipcode'', form_get frm ''zipcode'')])
      else None)"
proof (cases "sess_user_type S = Some (Str ''farmer'')")
  case True
  have d: "distinct (map fst
       [(''name'', form_get frm ''name''), (''email'', form_get frm ''email''),
        (''phone'', form_get frm ''phone''), (''description'', form_get frm ''description''),
        (''farm_name'', form_get frm ''farm_name''),
        (''location'',
           Doc [(''address'', form_get frm ''address''), (''city'', form_get frm ''city''),
                (''state'', form_get frm ''state''), (''zipcode'', form_get frm ''zipcode'')])])"
    by simp
  have l: "profile_update_data S frm =
     filter (\<lambda>(k, v). v \<noteq> Null)
       [(''name'', form_get frm ''name''), (''email'', form_get frm ''email''),
        (''phone'', form_get frm ''phone''), (''description'', form_get frm ''description''),
        (''farm_name'', form_get frm ''farm_name''),
        (''location'',
           Doc [(''address'', form_get frm ''address''), (''city'', form_get frm ''city''),
                (''state'', form_get frm ''state''), (''zipcode'', form_get frm ''zipcode'')])]"
    unfolding profile_update_data_list by (simp only: True simp_thms if_True append.simps)
  show ?thesis
    unfolding l
    by (subst map_of_filter_value [OF d]) (simp add: form_get_not_null True)
next
  case False
  have d: "distinct (map fst
       [(''name'', form_get frm ''name''), (''email'', form_get frm ''email''),
        (''phone'', form_get frm ''phone''), (''description'', form_get frm ''description'')])"
    by simp
  have l: "profile_update_data S frm =
     filter (\<lambda>(k, v). v \<noteq> Null)
       [(''name'', form_get frm ''name''), (''email'', form_get frm ''email''),
        (''phone'', form_get frm ''phone''), (''description'', form_get frm ''description'')]"
    unfolding profile_update_data_list by (simp only: False simp_thms if_False append_Nil2)
  show ?thesis
    unfolding l
    by (subst map_of_filter_value [OF d]) (simp add: form_get_not_null False)
qed

lemma profile_update_data_distinct: "distinct (map fst (profile_update_data S frm))"
  unfolding profile_update_data_list
  by (rule distinct_map_filter) (cases "sess_user_type S = Some (Str ''farmer'')", simp_all)

lemma map_of_social_links_data:
  "map_of (social_links_data frm) k =
     (if k \<in> {''facebook'', ''twitter'', ''instagram'', ''youtube''}
      then (case map_of frm k of
              None \<Rightarrow> None
            | Some v \<Rightarrow> if v \<noteq> [] then Some (Str v) else None)
      else None)"
proof -
  have d: "distinct (map fst
       [(''facebook'', form_get frm ''facebook''), (''twitter'', form_get frm ''twitter''),
        (''instagram'', form_get frm ''instagram''), (''youtube'', form_get frm ''youtube'')])"
    by simp
  have t: "\<And>x. (if truthy (form_get frm x) then Some (form_get frm x) else None) =
       (case map_of frm x of None \<Rightarrow> None | Some v \<Rightarrow> if v \<noteq> [] then Some (Str v) else None)"
    by (simp add: form_get_def split: option.splits)
  show ?thesis
    unfolding social_links_data_def
    by (subst map_of_filter_value [OF d]) (simp add: t)
qed

section \<open>Profile updates on the store\<close>

text \<open>What an update by \<^verbatim>\<open>_id\<close> with a mapping of distinct keys leaves alone and what
  it writes, and the updates the two profile handlers issue.\<close>

lemma find_one_matches:
  assumes "find_one coll q = Some d"
  shows "matches q d \<and> d \<in> set coll"
  using assms by (auto simp add: find_one_def find_Some_iff)


lemma update_one_lookup:
  assumes "distinct (map fst u)" and "map_of u ''_id'' = None"
    and "find_one coll [(''_id'', v)] = Some d"
  shows "\<exists>d'. find_one (update_one coll [(''_id'', v)] u) [(''_id'', v)] = Some d'
     \<and> (\<forall>k. map_of d' k = (case map_of u k of None \<Rightarrow> map_of d k | Some x \<Rightarrow> Some x))"
proof -
  from find_one_matches [OF assms(3)] have "map_of d ''_id'' = Some v"
    by (simp add: matches_id)
  with assms(1,2) have "matches [(''_id'', v)] (set_fields u d)"
    by (simp add: matches_id map_of_set_fields map_of_rev_distinct)
  from update_one_found [OF assms(3) this] assms(1) show ?thesis
    by (simp add: map_of_set_fields map_of_rev_distinct)
qed



lemma set_users_db:
  "users (db (set_users us W)) = us"
  "products (db (set_users us W)) = products (db W)"
  "orders (db (set_users us W)) = orders (db W)"
  "fs (set_users us W) = fs W"
  "session (set_users us W) = session W"
  by (simp_all add: set_users_def)

section \<open>Stored image paths\<close>

text \<open>A relative path under \<^verbatim>\<open>uploads/\<close> resolves against the static folder to the file
  in the upload folder; and the record a successful \<^verbatim>\<open>add_product\<close> inserts.\<close>

lemma static_resolves:
  assumes "fname \<noteq> []" and "hd fname \<noteq> CHR ''/''"
  shows "os_path_join (static_folder (app basedir)) (''uploads/'' @ fname) =
         os_path_join (UPLOAD_FOLDER (config (app basedir))) fname"
  using assms
  by (simp add: app_def Config_def os_path_join_def)

lemma add_product_upload_success:
  assumes "response (add_product_upload A L E R W fd) = to ''dashboard''"
  shows "\<exists>upl. map_of (files R) ''image'' = Some upl
     \<and> allowed_file A (filename upl)
     \<and> products (db (world (add_product_upload A L E R W fd))) =
         products (db W) @
           [with_id (new_id E)
              (fd @ [(''image_url'',
                      Str (url_for_static A L
                             (''uploads/'' @ strftime_underscore (now E) @ ''_'' @
                              secure_filename L (filename upl))))])]
     \<and> users (db (world (add_product_upload A L E R W fd))) = users (db W)"
proof -
  have ne: "\<And>u. Redirect (Url u) \<noteq> to ''dashboard''"
    by (simp add: to_def)
  obtain upl where u: "map_of (files R) ''image'' = Some upl"
    using assms ne
    by (cases "map_of (files R) ''image''") (auto simp add: add_product_upload_def reply_def)
  from assms ne u have f: "filename upl \<noteq> []"
    by (auto simp add: add_product_upload_def reply_def split: if_splits)
  from assms ne u f have al: "allowed_file A (filename upl)"
    by (auto simp add: add_product_upload_def reply_def split: if_splits)
  let ?fname = "strftime_underscore (now E) @ ''_'' @ secure_filename L (filename upl)"
  let ?d = "fd @ [(''image_url'', Str (url_for_static A L (''uploads/'' @ ?fname)))]"
  from assms ne u f al have dr: "isdir (fs W) (UPLOAD_FOLDER (config A))"
    by (auto simp add: add_product_upload_def reply_def Let_def split: if_splits)
  obtain ps where ps: "insert_one (products (db W)) (new_id E) ?d = Inr ps"
    using assms ne u f al dr
    by (cases "insert_one (products (db W)) (new_id E) ?d")
       (auto simp add: add_product_upload_def reply_def Let_def set_products_def)
  from insert_one_Inr [OF ps] have "ps = products (db W) @ [with_id (new_id E) ?d]" .
  with u f al dr ps show ?thesis
    by (simp add: add_product_upload_def reply_def Let_def set_products_def)
qed

lemma add_product_upload_no_folder:
  assumes "map_of (files R) ''image'' = Some upl" and "filename upl \<noteq> []"
    and "allowed_file A (filename upl)"
    and "\<not> isdir (fs W) (UPLOAD_FOLDER (config A))"
  shows "add_product_upload A L E R W fd =
     reply W [(''Error saving product image'', ''error'')] (Redirect (Url (url R)))"
  using assms
  by (simp add: add_product_upload_def Let_def)

lemma add_product_success:
  assumes "response (add_product A L E R W) = to ''dashboard''"
  shows "\<exists>upl d. map_of (files R) ''image'' = Some upl
     \<and> allowed_file A (filename upl)
     \<and> products (db (world (add_product A L E R W))) = products (db W) @ [d]
     \<and> users (db (world (add_product A L E R W))) = users (db W)
     \<and> map_of d ''image_url'' =
         Some (Str (url_for_static A L
                      (''uploads/'' @ strftime_underscore (now E) @ ''_'' @
                       secure_filename L (filename upl))))"
proof -
  have ne: "\<And>u. Redirect (Url u) \<noteq> to ''dashboard''" "to ''login'' \<noteq> to ''dashboard''"
    "\<And>t c. Render t c \<noteq> to ''dashboard''"
    by (simp_all add: to_def)
  obtain uid S1 where v: "validate_user_session L (session W) = (uid, S1)"
    by (cases "validate_user_session L (session W)")
  from assms v ne obtain user_id where uid: "uid = Some user_id"
    by (cases uid) (auto simp add: add_product_def Let_def reply_def)
  from assms v ne uid obtain fd where pf: "product_form L E R user_id = Some fd"
    and a: "add_product A L E R W = add_product_upload A L E R (W\<lparr>session := S1\<rparr>) fd"
    by (cases "product_form L E R user_id")
       (auto simp add: add_product_def Let_def reply_def split: if_splits)
  from pf have k: "map_of fd ''image_url'' = None"
    by (auto simp add: product_form_def split: option.splits)
  from assms a have "response (add_product_upload A L E R (W\<lparr>session := S1\<rparr>) fd) = to ''dashboard''"
    by simp
  from add_product_upload_success [OF this] obtain upl where
    u: "map_of (files R) ''image'' = Some upl" and al: "allowed_file A (filename upl)"
    and p: "products (db (world (add_product_upload A L E R (W\<lparr>session := S1\<rparr>) fd))) =
         products (db (W\<lparr>session := S1\<rparr>)) @
           [with_id (new_id E)
              (fd @ [(''image_url'',
                      Str (url_for_static A L
                             (''uploads/'' @ strftime_underscore (now E) @ ''_'' @
                              secure_filename L (filename upl))))])]"
    and us: "users (db (world (add_product_upload A L E R (W\<lparr>session := S1\<rparr>) fd))) =
         users (db (W\<lparr>session := S1\<rparr>))"
    by blast
  have m: "map_of (with_id (new_id E)
              (fd @ [(''image_url'',
                      Str (url_for_static A L
                             (''uploads/'' @ strftime_underscore (now E) @ ''_'' @
                              secure_filename L (filename upl))))])) ''image_url'' =
         Some (Str (url_for_static A L
                      (''uploads/'' @ strftime_underscore (now E) @ ''_'' @
                       secure_filename L (filename upl))))"
    using k by (simp add: map_of_with_id map_of_snoc del: map_of_append)
  from u al p us m show ?thesis
    unfolding a by auto
qed

lemma modified_count_found:
  assumes "modified_count coll q u = 1"
  shows "\<exists>d. find_one coll q = Some d"
  using assms by (auto simp add: modified_count_def split: option.splits)

lemma update_profile_picture_success:
  assumes "flashes (update_profile_picture A L E R W) =
             [(''Profile picture updated successfully!'', ''success'')]"
  shows "\<exists>uid upl x d'.
       validate_user_session L (session W) = (Some uid, session W)
     \<and> map_of (files R) ''profile_picture'' = Some upl
     \<and> allowed_file A (filename upl)
     \<and> getitem (rsplit1 (CHR ''.'') (secure_filename L (filename upl))) 1 = Inr x
     \<and> find_one (users (db (world (update_profile_picture A L E R W)))) [(''_id'', Oid uid)] = Some d'
     \<and> map_of d' ''image_url'' =
         Some (Str (''uploads/'' @ ''profile_'' @ uid @ ''_'' @ strftime_compact (now E) @ ''.'' @ lower x))
     \<and> path_exists (fs (world (update_profile_picture A L E R W)))
           (os_path_join (UPLOAD_FOLDER (config A))
              (''profile_'' @ uid @ ''_'' @ strftime_compact (now E) @ ''.'' @ lower x))"
proof -
  obtain u S1 where v: "validate_user_session L (session W) = (u, S1)"
    by (cases "validate_user_session L (session W)")
  from assms v obtain uid where uid: "u = Some uid"
    by (cases u) (auto simp add: update_profile_picture_def Let_def reply_def)
  from validate_user_session_Some [OF v [unfolded uid]] have s: "S1 = session W"
    by simp
  note v' = v [unfolded uid s]
  from assms v' obtain upl where fl: "map_of (files R) ''profile_picture'' = Some upl"
    by (cases "map_of (files R) ''profile_picture''")
       (auto simp add: update_profile_picture_def Let_def reply_def)
  from assms v' fl have f: "filename upl \<noteq> []"
    by (auto simp add: update_profile_picture_def Let_def reply_def split: if_splits)
  from assms v' fl f have al: "allowed_file A (filename upl)"
    by (auto simp add: update_profile_picture_def Let_def reply_def split: if_splits)
  from assms v' fl f al obtain x
    where x: "getitem (rsplit1 (CHR ''.'') (secure_filename L (filename upl))) 1 = Inr x"
    by (cases "getitem (rsplit1 (CHR ''.'') (secure_filename L (filename upl))) 1")
       (auto simp add: update_profile_picture_def Let_def reply_def)
  let ?fname = "''profile_'' @ uid @ ''_'' @ strftime_compact (now E) @ ''.'' @ lower x"
  let ?q = "[(''_id'', Oid uid)]"
  let ?u = "[(''image_url'', Str (''uploads/'' @ ?fname))]"
  have w: "world (update_profile_picture A L E R W) =
      set_users (update_one (users (db W)) ?q ?u)
        (W\<lparr>fs := chmod (os_path_join (UPLOAD_FOLDER (config A)) ?fname) 420
                    (save upl (os_path_join (UPLOAD_FOLDER (config A)) ?fname)
                       (makedirs (UPLOAD_FOLDER (config A)) (fs W)))\<rparr>)"
    using v' fl f al x
    by (simp add: update_profile_picture_def Let_def reply_def set_users_def)
  from assms v' fl f al x have "modified_count (users (db W)) ?q ?u = 1"
    by (auto simp add: update_profile_picture_def Let_def reply_def set_users_def split: if_splits)
  from modified_count_found [OF this] obtain d where d: "find_one (users (db W)) ?q = Some d"
    by blast
  have du: "distinct (map fst ?u)" and n: "map_of ?u ''_id'' = None"
    by simp_all
  from update_one_lookup [OF du n d] obtain d'
    where d': "find_one (update_one (users (db W)) ?q ?u) ?q = Some d'"
      and l: "\<And>k. map_of d' k = (case map_of ?u k of None \<Rightarrow> map_of d k | Some y \<Rightarrow> Some y)"
    by blast
  have i: "map_of d' ''image_url'' = Some (Str (''uploads/'' @ ?fname))"
    by (simp add: l)
  show ?thesis
    using v' fl al x d' i
    by (simp add: w set_users_db path_exists_saved)
qed

section \<open>Stored passwords\<close>

text \<open>The handlers other than \<^verbatim>\<open>register\<close> and \<^verbatim>\<open>change_password\<close> leave the
  \<^verbatim>\<open>password\<close> field of every user record as it is.\<close>

lemma passwords_update_one:
  assumes "map_of (rev u) ''password'' = None"
  shows "map (\<lambda>d. map_of d ''password'') (update_one coll q u) = map (\<lambda>d. map_of d ''password'') coll"
  using assms
  by (induction coll) (auto simp add: map_of_set_fields)

lemma passwords_set_users:
  "passwords (set_users us W) = map (\<lambda>d. map_of d ''password'') us"
  by (simp add: passwords_def set_users_db)

lemma passwords_session [simp]: "passwords (W\<lparr>session := S\<rparr>) = passwords W"
  by (simp add: passwords_def)

lemma passwords_fs [simp]: "passwords (W\<lparr>fs := F\<rparr>) = passwords W"
  by (simp add: passwords_def)

lemma passwords_set_products [simp]: "passwords (set_products ps W) = passwords W"
  by (simp add: passwords_def set_products_def)

lemma update_profile_passwords: "passwords (world (update_profile L R W)) = passwords W"
proof (cases "validate_user_session L (session W)")
  case (Pair uid S1)
  have "map_of (rev (profile_update_data S1 (form R))) ''password'' = None"
    by (simp add: map_of_rev_distinct [OF profile_update_data_distinct] map_of_profile_update_data)
  with Pair show ?thesis
    by (cases uid)
       (simp_all add: update_profile_def Let_def reply_def passwords_set_users passwords_update_one,
         simp add: passwords_def)
qed

lemma update_social_links_passwords: "passwords (world (update_social_links L R W)) = passwords W"
proof (cases "validate_user_session L (session W)")
  case (Pair uid S1)
  then show ?thesis
    by (cases uid)
       (simp_all add: update_social_links_def Let_def reply_def passwords_set_users passwords_update_one,
         simp add: passwords_def)
qed

lemma update_profile_picture_passwords:
  "passwords (world (update_profile_picture A L E R W)) = passwords W"
proof (cases "validate_user_session L (session W)")
  case (Pair uid S1)
  have u: "\<And>coll q v. map (\<lambda>d. map_of d ''password'') (update_one coll q [(''image_url'', v)])
      = map (\<lambda>d. map_of d ''password'') coll"
    by (rule passwords_update_one) simp
  from Pair show ?thesis
    by (cases uid)
       (auto simp add: passwords_def update_profile_picture_def Let_def reply_def set_users_db u
          split: option.splits sum.splits)
qed

lemma add_product_upload_passwords:
  "passwords (world (add_product_upload A L E R W fd)) = passwords W"
  by (auto simp add: add_product_upload_def Let_def reply_def split: option.splits sum.splits)

lemma add_product_passwords: "passwords (world (add_product A L E R W)) = passwords W"
proof (cases "validate_user_session L (session W)")
  case (Pair uid S1)
  then show ?thesis
    by (cases uid)
       (auto simp add: add_product_def Let_def reply_def add_product_upload_passwords
          split: option.splits)
qed

lemma read_only_passwords:
  "passwords (world (login L R W)) = passwords W"
  "passwords (world (logout W)) = passwords W"
  "passwords (world (index W)) = passwords W"
  "passwords (world (product_list R W)) = passwords W"
  "passwords (world (product_detail L p W)) = passwords W"
proof -
  show "passwords (world (login L R W)) = passwords W"
    by (auto simp add: login_def login_try_def login_invalid_def login_except_def reply_def Let_def
        split: option.splits val.splits)
  show "passwords (world (logout W)) = passwords W"
    by (simp add: logout_def reply_def)
  show "passwords (world (index W)) = passwords W"
    by (simp add: index_def reply_def)
  show "passwords (world (product_list R W)) = passwords W"
    by (simp add: product_list_def reply_def Let_def)
  show "passwords (world (product_detail L p W)) = passwords W"
    by (simp add: product_detail_def reply_def split: option.splits)
qed

lemma session_views_passwords:
  "passwords (world (dashboard L W)) = passwords W"
  "passwords (world (profile A L W)) = passwords W"
proof -
  obtain uid S1 where v: "validate_user_session L (session W) = (uid, S1)"
    by (cases "validate_user_session L (session W)")
  show "passwords (world (dashboard L W)) = passwords W"
    using v by (auto simp add: dashboard_def reply_def Let_def split: option.splits)
  show "passwords (world (profile A L W)) = passwords W"
    using v
    by (auto simp add: profile_def profile_except_def reply_def Let_def split: option.splits)
qed

text \<open>What \<^verbatim>\<open>change_password\<close> writes, and when.\<close>

lemma change_password_written:
  "db (world (change_password L E R W)) = db W
   \<or> (\<exists>uid new.
         map_of (form R) ''new_password'' = Some new
       \<and> db (world (change_password L E R W)) =
           (db W)\<lparr>users := update_one (users (db W)) [(''_id'', Oid uid)]
                     [(''password'', Str (generate_password_hash L (salt E) new))]\<rparr>)"
proof (cases "validate_user_session L (session W)")
  case (Pair u S1)
  show ?thesis
  proof (cases u)
    case None
    with Pair show ?thesis
      by (simp add: change_password_def Let_def reply_def)
  next
    case (Some uid)
    show ?thesis
    proof (cases "map_of (form R) ''new_password''")
      case None
      with Pair Some show ?thesis
        by (simp add: change_password_def change_password_except_def Let_def reply_def
            split: option.splits)
    next
      case new: (Some new)
      have "db (world (change_password L E R W)) = db W
        \<or> db (world (change_password L E R W)) =
           (db W)\<lparr>users := update_one (users (db W)) [(''_id'', Oid uid)]
                     [(''password'', Str (generate_password_hash L (salt E) new))]\<rparr>"
        using Pair Some new
        by (simp add: change_password_def change_password_except_def Let_def reply_def
            set_users_def split: option.splits val.splits)
      with new show ?thesis
        by blast
    qed
  qed
qed


lemma change_password_success:
  assumes "flashes (change_password L E R W) = [(''Password updated successfully!'', ''success'')]"
  shows "\<exists>uid new d'.
       validate_user_session L (session W) = (Some uid, session W)
     \<and> map_of (form R) ''new_password'' = Some new
     \<and> find_one (users (db (world (change_password L E R W)))) [(''_id'', Oid uid)] = Some d'
     \<and> map_of d' ''password'' = Some (Str (generate_password_hash L (salt E) new))"
proof -
  note defs = change_password_def change_password_except_def Let_def reply_def
  obtain u S1 where v: "validate_user_session L (session W) = (u, S1)"
    by (cases "validate_user_session L (session W)")
  from assms v obtain uid where uid: "u = Some uid"
    by (cases u) (auto simp add: defs)
  from validate_user_session_Some [OF v [unfolded uid]] have s: "S1 = session W"
    by simp
  note v' = v [unfolded uid s]
  from assms v' obtain cur where cur: "map_of (form R) ''current_password'' = Some cur"
    by (cases "map_of (form R) ''current_password''") (auto simp add: defs)
  from assms v' cur obtain new where new: "map_of (form R) ''new_password'' = Some new"
    by (cases "map_of (form R) ''new_password''") (auto simp add: defs)
  from assms v' cur new obtain conf where conf: "map_of (form R) ''confirm_password'' = Some conf"
    by (cases "map_of (form R) ''confirm_password''") (auto simp add: defs)
  from assms v' cur new conf have eq: "new = conf"
    by (auto simp add: defs split: if_splits)
  from assms v' cur new conf eq obtain d where d: "find_one (users (db W)) [(''_id'', Oid uid)] = Some d"
    by (cases "find_one (users (db W)) [(''_id'', Oid uid)]") (auto simp add: defs)
  from assms v' cur new conf eq d obtain pv where pv: "map_of d ''password'' = Some pv"
    by (cases "map_of d ''password''") (auto simp add: defs)
  from assms v' cur new conf eq d pv obtain h where h: "pv = Str h"
    by (cases pv) (auto simp add: defs)
  from assms v' cur new conf eq d pv h have c: "check_password_hash L h cur"
    by (auto simp add: defs split: if_splits)
  have w: "world (change_password L E R W) =
      set_users (update_one (users (db W)) [(''_id'', Oid uid)]
                   [(''password'', Str (generate_password_hash L (salt E) new))]) W"
    using v' cur new conf eq d pv h c by (simp add: defs)
  have du: "distinct (map fst [(''password'', Str (generate_password_hash L (salt E) new))])"
    and i: "map_of [(''password'', Str (generate_password_hash L (salt E) new))] ''_id'' = None"
    by simp_all
  from update_one_lookup [OF du i d] v' new show ?thesis
    by (auto simp add: w set_users_db)
qed

section \<open>Partial updates of the profile\<close>




section \<open>Passwords are stored hashed\<close>

text \<open>
  Claim C2, as stated, fails: registration stores the submitted form with only its
  \<^verbatim>\<open>password\<close> entry replaced by the hash, so a form that repeats the password under
  another key has it stored in plaintext. Here a successful registration submits
  \<^verbatim>\<open>secret123\<close> as \<^verbatim>\<open>password\<close> and as \<^verbatim>\<open>confirm_password\<close>, and the inserted record
  holds \<^verbatim>\<open>secret123\<close> under \<^verbatim>\<open>confirm_password\<close>.
\<close>

theorem password_plaintext_counterexample:
  "response (register (app ''/srv'') toy_lib env0
      (post_file [(''name'', ''Bob''), (''email'', ''bob@x.com''), (''password'', ''secret123''),
                  (''user_type'', ''customer''), (''confirm_password'', ''secret123'')]
         ''profile_picture'' photo_png) world0) = to ''login''
   \<and> map_of (form (post_file [(''name'', ''Bob''), (''email'', ''bob@x.com''), (''password'', ''secret123''),
                  (''user_type'', ''customer''), (''confirm_password'', ''secret123'')]
         ''profile_picture'' photo_png)) ''password'' = Some ''secret123''
   \<and> map_of (last (users (db (world (register (app ''/srv'') toy_lib env0
      (post_file [(''name'', ''Bob''), (''email'', ''bob@x.com''), (''password'', ''secret123''),
                  (''user_type'', ''customer''), (''confirm_password'', ''secret123'')]
         ''profile_picture'' photo_png) world0))))) ''confirm_password'' = Some (Str ''secret123'')"
  by (simp add:
      register_def register_try_def register_except_def new_user_def farmer_fields_def
      get_default_def to_dict_def allowed_file_def rsplit1_def lower_def lower_char_def
      getitem_def makedirs_def save_def chmod_def os_path_join_def strftime_compact_def
      pad2_def pad4_def digit_def insert_one_def with_id_def set_users_def reply_def to_def
      Let_def app_def Config_def post_file_def world0_def alice_def apples_def toy_lib_def
      env0_def photo_png_def)

text \<open>
  Claim C2, amended. Let the library's hash never return its own input. A successful
  registration appends one record whose \<^verbatim>\<open>password\<close> field is the hash of the submitted
  password, not the password, while every submitted field other than \<^verbatim>\<open>password\<close>,
  \<^verbatim>\<open>image_url\<close>, \<^verbatim>\<open>created_at\<close> and \<^verbatim>\<open>location\<close> is stored as submitted; a registration
  that fails changes no stored \<^verbatim>\<open>password\<close> field. A successful password change leaves
  the user's \<^verbatim>\<open>password\<close> field the hash of the submitted new password, not the new
  password; any password change leaves the \<^verbatim>\<open>password\<close> field of each record as it was
  or sets it to that hash. No other handler changes the \<^verbatim>\<open>password\<close> field of a record.
\<close>

theorem password_stored_hashed:
  assumes "\<And>s p. generate_password_hash L s p \<noteq> p"
  shows "(response (register A L E R W) = to ''login'' \<longrightarrow>
           (\<exists>d pw. users (db (world (register A L E R W))) = users (db W) @ [d]
              \<and> map_of (form R) ''password'' = Some pw
              \<and> map_of d ''password'' = Some (Str (generate_password_hash L (salt E) pw))
              \<and> map_of d ''password'' \<noteq> Some (Str pw)
              \<and> (\<forall>k v. map_of (form R) k = Some v
                     \<and> k \<notin> {''password'', ''image_url'', ''created_at'', ''location''} \<longrightarrow>
                     map_of d k = Some (Str v))))
    \<and> (response (register A L E R W) \<noteq> to ''login'' \<longrightarrow> passwords (world (register A L E R W)) = passwords W)
    \<and> (flashes (change_password L E R W) = [(''Password updated successfully!'', ''success'')] \<longrightarrow>
           (\<exists>uid new d'.
              validate_user_session L (session W) = (Some uid, session W)
              \<and> map_of (form R) ''new_password'' = Some new
              \<and> find_one (users (db (world (change_password L E R W)))) [(''_id'', Oid uid)] = Some d'
              \<and> map_of d' ''password'' = Some (Str (generate_password_hash L (salt E) new))
              \<and> map_of d' ''password'' \<noteq> Some (Str new)))
    \<and> length (passwords (world (change_password L E R W))) = length (passwords W)
    \<and> (\<forall>i. i < length (passwords W) \<longrightarrow>
           passwords (world (change_password L E R W)) ! i = passwords W ! i
         \<or> (\<exists>new. map_of (form R) ''new_password'' = Some new
              \<and> passwords (world (change_password L E R W)) ! i =
                  Some (Str (generate_password_hash L (salt E) new))
              \<and> passwords (world (change_password L E R W)) ! i \<noteq> Some (Str new)))
    \<and> passwords (world (update_profile L R W)) = passwords W
    \<and> passwords (world (update_social_links L R W)) = passwords W
    \<and> passwords (world (update_profile_picture A L E R W)) = passwords W
    \<and> passwords (world (add_product A L E R W)) = passwords W
    \<and> passwords (world (login L R W)) = passwords W
    \<and> passwords (world (logout W)) = passwords W
    \<and> passwords (world (profile A L W)) = passwords W
    \<and> passwords (world (dashboard L W)) = passwords W
    \<and> passwords (world (index W)) = passwords W
    \<and> passwords (world (product_list R W)) = passwords W
    \<and> passwords (world (product_detail L p W)) = passwords W"
proof -
  have a: "response (register A L E R W) = to ''login'' \<longrightarrow>
           (\<exists>d pw. users (db (world (register A L E R W))) = users (db W) @ [d]
              \<and> map_of (form R) ''password'' = Some pw
              \<and> map_of d ''password'' = Some (Str (generate_password_hash L (salt E) pw))
              \<and> map_of d ''password'' \<noteq> Some (Str pw)
              \<and> (\<forall>k v. map_of (form R) k = Some v
                     \<and> k \<notin> {''password'', ''image_url'', ''created_at'', ''location''} \<longrightarrow>
                     map_of d k = Some (Str v)))"
  proof
    assume r: "response (register A L E R W) = to ''login''"
    from register_success [OF r] obtain x pw
      where pw: "map_of (form R) ''password'' = Some pw"
        and u: "users (db (world (register A L E R W))) =
          users (db W) @ [registered L E R (''user_'' @ strftime_compact (now E) @ ''.'' @ lower x) pw]"
      by blast
    define fname where "fname = ''user_'' @ strftime_compact (now E) @ ''.'' @ lower x"
    from u have u': "users (db (world (register A L E R W))) = users (db W) @ [registered L E R fname pw]"
      by (simp add: fname_def)
    have h: "map_of (registered L E R fname pw) ''password'' =
        Some (Str (generate_password_hash L (salt E) pw))"
      by (simp add: map_of_registered)
    with assms [of "salt E" pw] have "map_of (registered L E R fname pw) ''password'' \<noteq> Some (Str pw)"
      by simp
    moreover have "\<forall>k v. map_of (form R) k = Some v
                     \<and> k \<notin> {''password'', ''image_url'', ''created_at'', ''location''} \<longrightarrow>
                     map_of (registered L E R fname pw) k = Some (Str v)"
      by (auto simp add: map_of_registered form_or_empty_def)
    moreover note u' pw h
    ultimately show "\<exists>d pw. users (db (world (register A L E R W))) = users (db W) @ [d]
              \<and> map_of (form R) ''password'' = Some pw
              \<and> map_of d ''password'' = Some (Str (generate_password_hash L (salt E) pw))
              \<and> map_of d ''password'' \<noteq> Some (Str pw)
              \<and> (\<forall>k v. map_of (form R) k = Some v
                     \<and> k \<notin> {''password'', ''image_url'', ''created_at'', ''location''} \<longrightarrow>
                     map_of d k = Some (Str v))"
      by blast
  qed
  have b: "response (register A L E R W) \<noteq> to ''login'' \<longrightarrow>
      passwords (world (register A L E R W)) = passwords W"
    using register_failure [of A L E R W] by (auto simp add: passwords_def)
  have c: "flashes (change_password L E R W) = [(''Password updated successfully!'', ''success'')] \<longrightarrow>
           (\<exists>uid new d'.
              validate_user_session L (session W) = (Some uid, session W)
              \<and> map_of (form R) ''new_password'' = Some new
              \<and> find_one (users (db (world (change_password L E R W)))) [(''_id'', Oid uid)] = Some d'
              \<and> map_of d' ''password'' = Some (Str (generate_password_hash L (salt E) new))
              \<and> map_of d' ''password'' \<noteq> Some (Str new))"
  proof
    assume "flashes (change_password L E R W) = [(''Password updated successfully!'', ''success'')]"
    from change_password_success [OF this] obtain uid new d'
      where "validate_user_session L (session W) = (Some uid, session W)"
        and "map_of (form R) ''new_password'' = Some new"
        and "find_one (users (db (world (change_password L E R W)))) [(''_id'', Oid uid)] = Some d'"
        and h: "map_of d' ''password'' = Some (Str (generate_password_hash L (salt E) new))"
      by blast
    moreover from h assms [of "salt E" new] have "map_of d' ''password'' \<noteq> Some (Str new)"
      by simp
    ultimately show "\<exists>uid new d'.
              validate_user_session L (session W) = (Some uid, session W)
              \<and> map_of (form R) ''new_password'' = Some new
              \<and> find_one (users (db (world (change_password L E R W)))) [(''_id'', Oid uid)] = Some d'
              \<and> map_of d' ''password'' = Some (Str (generate_password_hash L (salt E) new))
              \<and> map_of d' ''password'' \<noteq> Some (Str new)"
      by blast
  qed
  have d: "length (passwords (world (change_password L E R W))) = length (passwords W)
    \<and> (\<forall>i. i < length (passwords W) \<longrightarrow>
           passwords (world (change_password L E R W)) ! i = passwords W ! i
         \<or> (\<exists>new. map_of (form R) ''new_password'' = Some new
              \<and> passwords (world (change_password L E R W)) ! i =
                  Some (Str (generate_password_hash L (salt E) new))
              \<and> passwords (world (change_password L E R W)) ! i \<noteq> Some (Str new)))"
  proof (rule disjE [OF change_password_written [of L E R W]])
    assume "db (world (change_password L E R W)) = db W"
    then show ?thesis
      by (simp add: passwords_def)
  next
    assume "\<exists>uid new. map_of (form R) ''new_password'' = Some new
       \<and> db (world (change_password L E R W)) =
           (db W)\<lparr>users := update_one (users (db W)) [(''_id'', Oid uid)]
                     [(''password'', Str (generate_password_hash L (salt E) new))]\<rparr>"
    then obtain uid new where n: "map_of (form R) ''new_password'' = Some new"
      and w: "db (world (change_password L E R W)) =
           (db W)\<lparr>users := update_one (users (db W)) [(''_id'', Oid uid)]
                     [(''password'', Str (generate_password_hash L (salt E) new))]\<rparr>"
      by blast
    let ?u = "[(''password'', Str (generate_password_hash L (salt E) new))]"
    have l: "length (passwords (world (change_password L E R W))) = length (passwords W)"
      by (simp add: passwords_def w length_update_one)
    have "passwords (world (change_password L E R W)) ! i = passwords W ! i
         \<or> (\<exists>new. map_of (form R) ''new_password'' = Some new
              \<and> passwords (world (change_password L E R W)) ! i =
                  Some (Str (generate_password_hash L (salt E) new))
              \<and> passwords (world (change_password L E R W)) ! i \<noteq> Some (Str new))"
      if "i < length (passwords W)" for i
    proof -
      from that have i: "i < length (users (db W))"
        by (simp add: passwords_def)
      have e: "passwords (world (change_password L E R W)) ! i =
          map_of (update_one (users (db W)) [(''_id'', Oid uid)] ?u ! i) ''password''"
        using i by (simp add: passwords_def w length_update_one)
      have o: "passwords W ! i = map_of (users (db W) ! i) ''password''"
        using i by (simp add: passwords_def)
      from update_one_nth [OF i, of "[(''_id'', Oid uid)]" ?u]
      show ?thesis
      proof
        assume "update_one (users (db W)) [(''_id'', Oid uid)] ?u ! i = users (db W) ! i"
        then show ?thesis
          by (simp add: e o)
      next
        assume "matches [(''_id'', Oid uid)] (users (db W) ! i)
          \<and> update_one (users (db W)) [(''_id'', Oid uid)] ?u ! i = set_fields ?u (users (db W) ! i)"
        then have "passwords (world (change_password L E R W)) ! i =
            Some (Str (generate_password_hash L (salt E) new))"
          by (simp add: e map_of_set_fields)
        with n assms [of "salt E" new] show ?thesis
          by simp
      qed
    qed
    with l show ?thesis
      by blast
  qed
  from d have d1: "length (passwords (world (change_password L E R W))) = length (passwords W)"
    and d2: "\<forall>i. i < length (passwords W) \<longrightarrow>
           passwords (world (change_password L E R W)) ! i = passwords W ! i
         \<or> (\<exists>new. map_of (form R) ''new_password'' = Some new
              \<and> passwords (world (change_password L E R W)) ! i =
                  Some (Str (generate_password_hash L (salt E) new))
              \<and> passwords (world (change_password L E R W)) ! i \<noteq> Some (Str new))"
    by (rule conjunct1, rule conjunct2)
  show ?thesis
    by (intro conjI a b c d1 d2 update_profile_passwords update_social_links_passwords
        update_profile_picture_passwords add_product_passwords read_only_passwords
        session_views_passwords)
qed

theorem password_stored_hashed_witness:
  "(\<forall>s p. generate_password_hash toy_lib s p \<noteq> p)
   \<and> response (register (app ''/srv'') toy_lib env0 (register_request photo_png) world0) = to ''login''
   \<and> (\<exists>d pw. users (db (world (register (app ''/srv'') toy_lib env0 (register_request photo_png) world0))) =
           users (db world0) @ [d]
         \<and> map_of (form (register_request photo_png)) ''password'' = Some pw
         \<and> map_of d ''password'' = Some (Str (generate_password_hash toy_lib (salt env0) pw))
         \<and> map_of d ''password'' \<noteq> Some (Str pw)
         \<and> (\<forall>k v. map_of (form (register_request photo_png)) k = Some v
                \<and> k \<notin> {''password'', ''image_url'', ''created_at'', ''location''} \<longrightarrow>
                map_of d k = Some (Str v)))"
proof (intro conjI)
  show "\<forall>s p. generate_password_hash toy_lib s p \<noteq> p"
    by (simp add: toy_hash_differs)
  show "response (register (app ''/srv'') toy_lib env0 (register_request photo_png) world0) = to ''login''"
    by (rule bob_registered)
  from password_stored_hashed [OF toy_hash_differs, where A = "app ''/srv''" and E = env0
      and R = "register_request photo_png" and W = world0]
  show "\<exists>d pw. users (db (world (register (app ''/srv'') toy_lib env0 (register_request photo_png) world0))) =
           users (db world0) @ [d]
         \<and> map_of (form (register_request photo_png)) ''password'' = Some pw
         \<and> map_of d ''password'' = Some (Str (generate_password_hash toy_lib (salt env0) pw))
         \<and> map_of d ''password'' \<noteq> Some (Str pw)
         \<and> (\<forall>k v. map_of (form (register_request photo_png)) k = Some v
                \<and> k \<notin> {''password'', ''image_url'', ''created_at'', ''location''} \<longrightarrow>
                map_of d k = Some (Str v))"
    by (rule mp [OF conjunct1 bob_registered])
qed

section \<open>Disallowed uploads\<close>

text \<open>
  Claim C3. A submitted file whose name has no dot, or whose part after the last dot,
  in lower case, is not one of png, jpg, jpeg, gif, is turned away by each of the three
  upload handlers (registration, profile picture, product image): a message is flashed,
  the response is a redirect, no file is written and the store is unchanged.
\<close>

theorem disallowed_upload_rejected:
  assumes "CHR ''.'' \<notin> set (filename f)
     \<or> (\<exists>pre ext. filename f = pre @ ''.'' @ ext \<and> CHR ''.'' \<notin> set ext
           \<and> lower ext \<notin> {''png'', ''jpg'', ''jpeg'', ''gif''})"
  shows "(req_method R = POST \<and> map_of (files R) ''profile_picture'' = Some f \<longrightarrow>
            rejected W (register (app basedir) L E R W))
    \<and> (map_of (files R) ''profile_picture'' = Some f \<longrightarrow>
            rejected W (update_profile_picture (app basedir) L E R W))
    \<and> (req_method R = POST \<and> map_of (files R) ''image'' = Some f \<longrightarrow>
            rejected W (add_product (app basedir) L E R W))"
proof -
  have n: "\<not> allowed_file (app basedir) (filename f)"
    using assms by (rule bad_name_not_allowed)
  show ?thesis
    using register_rejects [OF _ _ n, where R = R and L = L and E = E and W = W]
      update_profile_picture_rejects [OF _ n, where R = R and L = L and E = E and W = W]
      add_product_rejects [OF _ _ n, where R = R and L = L and E = E and W = W]
    by blast
qed

theorem disallowed_upload_rejected_witness:
  "(\<exists>pre ext. filename notes_txt = pre @ ''.'' @ ext \<and> CHR ''.'' \<notin> set ext
           \<and> lower ext \<notin> {''png'', ''jpg'', ''jpeg'', ''gif''})
   \<and> req_method (register_request notes_txt) = POST
   \<and> map_of (files (register_request notes_txt)) ''profile_picture'' = Some notes_txt
   \<and> rejected world0 (register (app ''/srv'') toy_lib env0 (register_request notes_txt) world0)
   \<and> flashes (register (app ''/srv'') toy_lib env0 (register_request notes_txt) world0) =
        [(''Only JPG, PNG files are allowed'', ''error'')]"
proof -
  have "filename notes_txt = ''notes'' @ ''.'' @ ''txt'' \<and> CHR ''.'' \<notin> set ''txt''
           \<and> lower ''txt'' \<notin> {''png'', ''jpg'', ''jpeg'', ''gif''}"
    by (simp add: notes_txt_def lower_def lower_char_def)
  then have h: "\<exists>pre ext. filename notes_txt = pre @ ''.'' @ ext \<and> CHR ''.'' \<notin> set ext
           \<and> lower ext \<notin> {''png'', ''jpg'', ''jpeg'', ''gif''}"
    by blast
  have p: "req_method (register_request notes_txt) = POST"
    by (simp add: register_request_def)
  have q: "map_of (files (register_request notes_txt)) ''profile_picture'' = Some notes_txt"
    by (simp add: register_request_def)
  have m: "flashes (register (app ''/srv'') toy_lib env0 (register_request notes_txt) world0) =
        [(''Only JPG, PNG files are allowed'', ''error'')]"
    by (simp add:
      register_def register_try_def reply_def to_def Let_def to_dict_def allowed_file_def
      rsplit1_def lower_def lower_char_def app_def Config_def register_request_def
      notes_txt_def)
  from disallowed_upload_rejected [where f = notes_txt and R = "register_request notes_txt"
      and W = world0 and basedir = "''/srv''" and L = toy_lib and E = env0]
    h p q m show ?thesis
    by blast
qed

section \<open>The record of a registration\<close>

text \<open>
  Claim C4, as stated, fails: the handler never compares \<^verbatim>\<open>user_type\<close> with the two
  roles and inserts the whole submitted form. A registration that submits the user type
  \<^verbatim>\<open>admin\<close> and an extra field \<^verbatim>\<open>is_admin\<close> succeeds, and the stored record has both.
\<close>

theorem registered_user_fields_counterexample:
  "response (register (app ''/srv'') toy_lib env0
      (post_file [(''name'', ''Eve''), (''email'', ''eve@x.com''), (''password'', ''pw''),
                  (''user_type'', ''admin''), (''is_admin'', ''yes'')]
         ''profile_picture'' photo_png) world0) = to ''login''
   \<and> map_of (last (users (db (world (register (app ''/srv'') toy_lib env0
      (post_file [(''name'', ''Eve''), (''email'', ''eve@x.com''), (''password'', ''pw''),
                  (''user_type'', ''admin''), (''is_admin'', ''yes'')]
         ''profile_picture'' photo_png) world0))))) ''user_type'' = Some (Str ''admin'')
   \<and> ''admin'' \<noteq> ''farmer'' \<and> ''admin'' \<noteq> ''customer''
   \<and> map_of (last (users (db (world (register (app ''/srv'') toy_lib env0
      (post_file [(''name'', ''Eve''), (''email'', ''eve@x.com''), (''password'', ''pw''),
                  (''user_type'', ''admin''), (''is_admin'', ''yes'')]
         ''profile_picture'' photo_png) world0))))) ''is_admin'' = Some (Str ''yes'')"
  by (simp add:
      register_def register_try_def register_except_def new_user_def farmer_fields_def
      get_default_def to_dict_def allowed_file_def rsplit1_def lower_def lower_char_def
      getitem_def makedirs_def save_def chmod_def os_path_join_def strftime_compact_def
      pad2_def pad4_def digit_def insert_one_def with_id_def set_users_def reply_def to_def
      Let_def app_def Config_def post_file_def world0_def alice_def apples_def toy_lib_def
      env0_def photo_png_def)

text \<open>
  Claim C4, amended. The record that a successful registration inserts has the
  submitted \<^verbatim>\<open>user_type\<close>, whatever string it is. Its keys are the keys of the
  submitted form together with \<^verbatim>\<open>image_url\<close>, \<^verbatim>\<open>created_at\<close> and \<^verbatim>\<open>_id\<close>, and for the
  user type \<^verbatim>\<open>farmer\<close> also \<^verbatim>\<open>farm_name\<close> and \<^verbatim>\<open>location\<close>. Every submitted field
  other than \<^verbatim>\<open>password\<close>, \<^verbatim>\<open>image_url\<close> and \<^verbatim>\<open>created_at\<close> (and a farmer's
  \<^verbatim>\<open>location\<close>) is stored as submitted; the \<^verbatim>\<open>password\<close> is stored as the hash of the
  submitted one, \<^verbatim>\<open>created_at\<close> is the time of the request and \<^verbatim>\<open>image_url\<close> the
  relative path of the saved picture. A farmer's \<^verbatim>\<open>farm_name\<close> is the submitted one
  or the empty string, and the \<^verbatim>\<open>location\<close> is the sub-document of address, city, state
  and zipcode, each the submitted one or the empty string.
\<close>

theorem registered_user_fields:
  assumes "response (register A L E R W) = to ''login''"
  shows "\<exists>d ut pw.
       users (db (world (register A L E R W))) = users (db W) @ [d]
     \<and> map_of (form R) ''user_type'' = Some ut
     \<and> map_of d ''user_type'' = Some (Str ut)
     \<and> map_of (form R) ''password'' = Some pw
     \<and> map_of d ''password'' = Some (Str (generate_password_hash L (salt E) pw))
     \<and> map_of d ''created_at'' = Some (Time (utcnow E))
     \<and> (\<exists>x. map_of d ''image_url'' =
            Some (Str (''uploads/'' @ ''user_'' @ strftime_compact (now E) @ ''.'' @ lower x)))
     \<and> fst ` set d =
         fst ` set (form R) \<union> {''image_url'', ''created_at'', ''_id''}
           \<union> (if ut = ''farmer'' then {''farm_name'', ''location''} else {})
     \<and> (\<forall>k v. map_of (form R) k = Some v
            \<and> k \<notin> {''password'', ''image_url'', ''created_at''}
            \<and> (ut = ''farmer'' \<longrightarrow> k \<noteq> ''location'') \<longrightarrow>
            map_of d k = Some (Str v))
     \<and> (ut = ''farmer'' \<longrightarrow>
           map_of d ''farm_name'' = Some (Str (form_or_empty (form R) ''farm_name''))
         \<and> map_of d ''location'' =
             Some (Doc [(''address'', Str (form_or_empty (form R) ''address'')),
                        (''city'', Str (form_or_empty (form R) ''city'')),
                        (''state'', Str (form_or_empty (form R) ''state'')),
                        (''zipcode'', Str (form_or_empty (form R) ''zipcode''))]))"
proof -
  from register_success [OF assms] obtain x pw
    where pw: "map_of (form R) ''password'' = Some pw"
      and u: "users (db (world (register A L E R W))) =
          users (db W) @ [registered L E R (''user_'' @ strftime_compact (now E) @ ''.'' @ lower x) pw]"
    by blast
  define fname where "fname = ''user_'' @ strftime_compact (now E) @ ''.'' @ lower x"
  let ?d = "registered L E R fname pw"
  from u have u': "users (db (world (register A L E R W))) = users (db W) @ [?d]"
    by (simp add: fname_def)
  from register_required [OF assms] obtain ut where ut: "map_of (form R) ''user_type'' = Some ut"
    by blast
  note m = map_of_registered [of L E R fname pw]
  have t: "map_of ?d ''user_type'' = Some (Str ut)"
    using ut by (simp add: m)
  have h: "map_of ?d ''password'' = Some (Str (generate_password_hash L (salt E) pw))"
    by (simp add: m)
  have c: "map_of ?d ''created_at'' = Some (Time (utcnow E))"
    by (simp add: m)
  have "map_of ?d ''image_url'' = Some (Str (''uploads/'' @ fname))"
    by (simp add: m)
  then have i: "\<exists>x. map_of ?d ''image_url'' =
            Some (Str (''uploads/'' @ ''user_'' @ strftime_compact (now E) @ ''.'' @ lower x))"
    unfolding fname_def by blast
  have "dom (map_of ?d) =
         dom (map_of (form R)) \<union> {''image_url'', ''created_at'', ''_id''}
           \<union> (if ut = ''farmer'' then {''farm_name'', ''location''} else {})"
    using ut pw by (auto simp add: m domIff split: if_splits)
  then have k: "fst ` set ?d =
         fst ` set (form R) \<union> {''image_url'', ''created_at'', ''_id''}
           \<union> (if ut = ''farmer'' then {''farm_name'', ''location''} else {})"
    by (simp add: dom_map_of_conv_image_fst)
  have f: "\<forall>k v. map_of (form R) k = Some v
            \<and> k \<notin> {''password'', ''image_url'', ''created_at''}
            \<and> (ut = ''farmer'' \<longrightarrow> k \<noteq> ''location'') \<longrightarrow>
            map_of ?d k = Some (Str v)"
    using ut by (auto simp add: m form_or_empty_def)
  have g: "ut = ''farmer'' \<longrightarrow>
           map_of ?d ''farm_name'' = Some (Str (form_or_empty (form R) ''farm_name''))
         \<and> map_of ?d ''location'' =
             Some (Doc [(''address'', Str (form_or_empty (form R) ''address'')),
                        (''city'', Str (form_or_empty (form R) ''city'')),
                        (''state'', Str (form_or_empty (form R) ''state'')),
                        (''zipcode'', Str (form_or_empty (form R) ''zipcode''))])"
    using ut by (simp add: m)
  from u' ut t pw h c i k f g show ?thesis
    by blast
qed

theorem registered_user_fields_witness:
  "response (register (app ''/srv'') toy_lib env0 (register_request photo_png) world0) = to ''login''
   \<and> (\<exists>d ut pw.
       users (db (world (register (app ''/srv'') toy_lib env0 (register_request photo_png) world0))) = users (db world0) @ [d]
     \<and> map_of (form (register_request photo_png)) ''user_type'' = Some ut
     \<and> map_of d ''user_type'' = Some (Str ut)
     \<and> map_of (form (register_request photo_png)) ''password'' = Some pw
     \<and> map_of d ''password'' = Some (Str (generate_password_hash toy_lib (salt env0) pw))
     \<and> map_of d ''created_at'' = Some (Time (utcnow env0))
     \<and> (\<exists>x. map_of d ''image_url'' =
            Some (Str (''uploads/'' @ ''user_'' @ strftime_compact (now env0) @ ''.'' @ lower x)))
     \<and> fst ` set d =
         fst ` set (form (register_request photo_png)) \<union> {''image_url'', ''created_at'', ''_id''}
           \<union> (if ut = ''farmer'' then {''farm_name'', ''location''} else {})
     \<and> (\<forall>k v. map_of (form (register_request photo_png)) k = Some v
            \<and> k \<notin> {''password'', ''image_url'', ''created_at''}
            \<and> (ut = ''farmer'' \<longrightarrow> k \<noteq> ''location'') \<longrightarrow>
            map_of d k = Some (Str v))
     \<and> (ut = ''farmer'' \<longrightarrow>
           map_of d ''farm_name'' = Some (Str (form_or_empty (form (register_request photo_png)) ''farm_name''))
         \<and> map_of d ''location'' =
             Some (Doc [(''address'', Str (form_or_empty (form (register_request photo_png)) ''address'')),
                        (''city'', Str (form_or_empty (form (register_request photo_png)) ''city'')),
                        (''state'', Str (form_or_empty (form (register_request photo_png)) ''state'')),
                        (''zipcode'', Str (form_or_empty (form (register_request photo_png)) ''zipcode''))])))"
proof (rule conjI)
  show "response (register (app ''/srv'') toy_lib env0 (register_request photo_png) world0) = to ''login''"
    by (rule bob_registered)
  show "\<exists>d ut pw.
       users (db (world (register (app ''/srv'') toy_lib env0 (register_request photo_png) world0))) = users (db world0) @ [d]
     \<and> map_of (form (register_request photo_png)) ''user_type'' = Some ut
     \<and> map_of d ''user_type'' = Some (Str ut)
     \<and> map_of (form (register_request photo_png)) ''password'' = Some pw
     \<and> map_of d ''password'' = Some (Str (generate_password_hash toy_lib (salt env0) pw))
     \<and> map_of d ''created_at'' = Some (Time (utcnow env0))
     \<and> (\<exists>x. map_of d ''image_url'' =
            Some (Str (''uploads/'' @ ''user_'' @ strftime_compact (now env0) @ ''.'' @ lower x)))
     \<and> fst ` set d =
         fst ` set (form (register_request photo_png)) \<union> {''image_url'', ''created_at'', ''_id''}
           \<union> (if ut = ''farmer'' then {''farm_name'', ''location''} else {})
     \<and> (\<forall>k v. map_of (form (register_request photo_png)) k = Some v
            \<and> k \<notin> {''password'', ''image_url'', ''created_at''}
            \<and> (ut = ''farmer'' \<longrightarrow> k \<noteq> ''location'') \<longrightarrow>
            map_of d k = Some (Str v))
     \<and> (ut = ''farmer'' \<longrightarrow>
           map_of d ''farm_name'' = Some (Str (form_or_empty (form (register_request photo_png)) ''farm_name''))
         \<and> map_of d ''location'' =
             Some (Doc [(''address'', Str (form_or_empty (form (register_request photo_png)) ''address'')),
                        (''city'', Str (form_or_empty (form (register_request photo_png)) ''city'')),
                        (''state'', Str (form_or_empty (form (register_request photo_png)) ''state'')),
                        (''zipcode'', Str (form_or_empty (form (register_request photo_png)) ''zipcode''))]))"
    by (rule registered_user_fields [OF bob_registered])
qed

section \<open>Stored image paths of the uploads\<close>

text \<open>
  Claim C5, as stated, fails for the product image: \<^verbatim>\<open>add_product\<close> stores what
  \<^verbatim>\<open>url_for('static', ...)\<close> returns, the URL path \<^verbatim>\<open>/static/uploads/<filename>\<close>, not the
  relative path \<^verbatim>\<open>uploads/<filename>\<close>.
\<close>

theorem product_image_url_counterexample:
  "response (add_product (app ''/srv'') toy_lib env0
      (post_file [(''name'', ''Pears''), (''category'', ''fruit''), (''price'', ''12.5''),
                  (''quantity'', ''10''), (''description'', ''Green'')]
         ''image'' photo_png) world1) = to ''dashboard''
   \<and> map_of (last (products (db (world (add_product (app ''/srv'') toy_lib env0
      (post_file [(''name'', ''Pears''), (''category'', ''fruit''), (''price'', ''12.5''),
                  (''quantity'', ''10''), (''description'', ''Green'')]
         ''image'' photo_png) world1))))) ''image_url'' =
       Some (Str ''/static/uploads/20240309_070501_photo.PNG'')
   \<and> take 8 ''/static/uploads/20240309_070501_photo.PNG'' \<noteq> ''uploads/''"
  by (simp add:
      add_product_def add_product_upload_def product_form_def validate_user_session_def
      form_get_def allowed_file_def rsplit1_def lower_def lower_char_def isdir_def save_def
      chmod_def os_path_join_def strftime_underscore_def pad2_def pad4_def digit_def
      url_for_static_def insert_one_def with_id_def set_products_def reply_def to_def
      Let_def app_def Config_def post_file_def env0_def photo_png_def world1_def world0_def
      alice_session_def alice_def apples_def toy_lib_def hex24_def lower_def lower_char_def)

text \<open>
  Claim C5, amended. The image path that a successful registration stores is
  \<^verbatim>\<open>uploads/user_<timestamp>.<ext>\<close>, and the one a successful profile-picture update
  stores is \<^verbatim>\<open>uploads/profile_<id>_<timestamp>.<ext>\<close>; joined to the static folder, each
  is the path of the file the handler has just saved. The image path that a successful
  \<^verbatim>\<open>add_product\<close> stores is the static URL \<^verbatim>\<open>/static/\<close> followed by the quoted
  \<^verbatim>\<open>uploads/<timestamp>_<secure name>\<close>.
\<close>

theorem stored_image_paths:
  "(response (register (app basedir) L E R W) = to ''login'' \<longrightarrow>
      (\<exists>d x. users (db (world (register (app basedir) L E R W))) = users (db W) @ [d]
         \<and> map_of d ''image_url'' =
             Some (Str (''uploads/'' @ ''user_'' @ strftime_compact (now E) @ ''.'' @ lower x))
         \<and> path_exists (fs (world (register (app basedir) L E R W)))
               (os_path_join (static_folder (app basedir))
                  (''uploads/'' @ ''user_'' @ strftime_compact (now E) @ ''.'' @ lower x))))
   \<and> (flashes (update_profile_picture (app basedir) L E R W) =
         [(''Profile picture updated successfully!'', ''success'')] \<longrightarrow>
      (\<exists>uid x d'.
           validate_user_session L (session W) = (Some uid, session W)
         \<and> find_one (users (db (world (update_profile_picture (app basedir) L E R W))))
               [(''_id'', Oid uid)] = Some d'
         \<and> map_of d' ''image_url'' =
             Some (Str (''uploads/'' @ ''profile_'' @ uid @ ''_'' @ strftime_compact (now E)
                        @ ''.'' @ lower x))
         \<and> path_exists (fs (world (update_profile_picture (app basedir) L E R W)))
               (os_path_join (static_folder (app basedir))
                  (''uploads/'' @ ''profile_'' @ uid @ ''_'' @ strftime_compact (now E)
                   @ ''.'' @ lower x))))
   \<and> (response (add_product (app basedir) L E R W) = to ''dashboard'' \<longrightarrow>
      (\<exists>upl d. map_of (files R) ''image'' = Some upl
         \<and> products (db (world (add_product (app basedir) L E R W))) = products (db W) @ [d]
         \<and> map_of d ''image_url'' =
             Some (Str (''/static/'' @
                        url_quote L (''uploads/'' @ strftime_underscore (now E) @ ''_'' @
                                     secure_filename L (filename upl))))))"
proof (intro conjI impI)
  assume r: "response (register (app basedir) L E R W) = to ''login''"
  from register_success [OF r] obtain x pw
    where u: "users (db (world (register (app basedir) L E R W))) =
          users (db W) @ [registered L E R (''user_'' @ strftime_compact (now E) @ ''.'' @ lower x) pw]"
      and p: "path_exists (fs (world (register (app basedir) L E R W)))
           (os_path_join (UPLOAD_FOLDER (config (app basedir)))
              (''user_'' @ strftime_compact (now E) @ ''.'' @ lower x))"
    by blast
  define fname where "fname = ''user_'' @ strftime_compact (now E) @ ''.'' @ lower x"
  have n: "fname \<noteq> []" "hd fname \<noteq> CHR ''/''"
    by (simp_all add: fname_def)
  from u have u': "users (db (world (register (app basedir) L E R W))) =
      users (db W) @ [registered L E R fname pw]"
    by (simp add: fname_def)
  have i: "map_of (registered L E R fname pw) ''image_url'' = Some (Str (''uploads/'' @ fname))"
    by (simp add: map_of_registered)
  from p have "path_exists (fs (world (register (app basedir) L E R W)))
      (os_path_join (UPLOAD_FOLDER (config (app basedir))) fname)"
    by (simp only: fname_def)
  then have p': "path_exists (fs (world (register (app basedir) L E R W)))
      (os_path_join (static_folder (app basedir)) (''uploads/'' @ fname))"
    by (simp only: static_resolves [OF n])
  from u' i p' show "\<exists>d x. users (db (world (register (app basedir) L E R W))) = users (db W) @ [d]
         \<and> map_of d ''image_url'' =
             Some (Str (''uploads/'' @ ''user_'' @ strftime_compact (now E) @ ''.'' @ lower x))
         \<and> path_exists (fs (world (register (app basedir) L E R W)))
               (os_path_join (static_folder (app basedir))
                  (''uploads/'' @ ''user_'' @ strftime_compact (now E) @ ''.'' @ lower x))"
    unfolding fname_def by blast
next
  assume s: "flashes (update_profile_picture (app basedir) L E R W) =
         [(''Profile picture updated successfully!'', ''success'')]"
  from update_profile_picture_success [OF s] obtain uid x d'
    where v: "validate_user_session L (session W) = (Some uid, session W)"
      and f: "find_one (users (db (world (update_profile_picture (app basedir) L E R W))))
               [(''_id'', Oid uid)] = Some d'"
      and i: "map_of d' ''image_url'' =
         Some (Str (''uploads/'' @ ''profile_'' @ uid @ ''_'' @ strftime_compact (now E) @ ''.'' @ lower x))"
      and p: "path_exists (fs (world (update_profile_picture (app basedir) L E R W)))
           (os_path_join (UPLOAD_FOLDER (config (app basedir)))
              (''profile_'' @ uid @ ''_'' @ strftime_compact (now E) @ ''.'' @ lower x))"
    by blast
  define fname where "fname = ''profile_'' @ uid @ ''_'' @ strftime_compact (now E) @ ''.'' @ lower x"
  have n: "fname \<noteq> []" "hd fname \<noteq> CHR ''/''"
    by (simp_all add: fname_def)
  from p have "path_exists (fs (world (update_profile_picture (app basedir) L E R W)))
      (os_path_join (UPLOAD_FOLDER (config (app basedir))) fname)"
    by (simp only: fname_def)
  then have p': "path_exists (fs (world (update_profile_picture (app basedir) L E R W)))
      (os_path_join (static_folder (app basedir)) (''uploads/'' @ fname))"
    by (simp only: static_resolves [OF n])
  from v f i p' show "\<exists>uid x d'.
           validate_user_session L (session W) = (Some uid, session W)
         \<and> find_one (users (db (world (update_profile_picture (app basedir) L E R W))))
               [(''_id'', Oid uid)] = Some d'
         \<and> map_of d' ''image_url'' =
             Some (Str (''uploads/'' @ ''profile_'' @ uid @ ''_'' @ strftime_compact (now E)
                        @ ''.'' @ lower x))
         \<and> path_exists (fs (world (update_profile_picture (app basedir) L E R W)))
               (os_path_join (static_folder (app basedir))
                  (''uploads/'' @ ''profile_'' @ uid @ ''_'' @ strftime_compact (now E)
                   @ ''.'' @ lower x))"
    unfolding fname_def by blast
next
  assume a: "response (add_product (app basedir) L E R W) = to ''dashboard''"
  have q: "url_for_static (app basedir) L f = ''/static/'' @ url_quote L f" for f
    by (simp add: url_for_static_def app_def)
  from add_product_success [OF a] show "\<exists>upl d. map_of (files R) ''image'' = Some upl
         \<and> products (db (world (add_product (app basedir) L E R W))) = products (db W) @ [d]
         \<and> map_of d ''image_url'' =
             Some (Str (''/static/'' @
                        url_quote L (''uploads/'' @ strftime_underscore (now E) @ ''_'' @
                                     secure_filename L (filename upl))))"
    unfolding q by blast
qed

theorem stored_image_paths_witness:
  "response (register (app ''/srv'') toy_lib env0 (register_request photo_png) world0) = to ''login''
   \<and> (\<exists>d x. users (db (world (register (app ''/srv'') toy_lib env0 (register_request photo_png) world0))) =
           users (db world0) @ [d]
         \<and> map_of d ''image_url'' =
             Some (Str (''uploads/'' @ ''user_'' @ strftime_compact (now env0) @ ''.'' @ lower x))
         \<and> path_exists (fs (world (register (app ''/srv'') toy_lib env0 (register_request photo_png) world0)))
               (os_path_join (static_folder (app ''/srv''))
                  (''uploads/'' @ ''user_'' @ strftime_compact (now env0) @ ''.'' @ lower x)))"
proof (rule conjI)
  show "response (register (app ''/srv'') toy_lib env0 (register_request photo_png) world0) = to ''login''"
    by (rule bob_registered)
  from stored_image_paths [where basedir = "''/srv''" and L = toy_lib and E = env0
      and R = "register_request photo_png" and W = world0]
  show "\<exists>d x. users (db (world (register (app ''/srv'') toy_lib env0 (register_request photo_png) world0))) =
           users (db world0) @ [d]
         \<and> map_of d ''image_url'' =
             Some (Str (''uploads/'' @ ''user_'' @ strftime_compact (now env0) @ ''.'' @ lower x))
         \<and> path_exists (fs (world (register (app ''/srv'') toy_lib env0 (register_request photo_png) world0)))
               (os_path_join (static_folder (app ''/srv''))
                  (''uploads/'' @ ''user_'' @ strftime_compact (now env0) @ ''.'' @ lower x))"
    by (rule mp [OF conjunct1 bob_registered])
qed

section \<open>Changing the password\<close>

text \<open>
  Claim C6, as stated, fails: a change-password request that carries two different new
  passwords but no \<^verbatim>\<open>current_password\<close> field raises at the first form access, and the
  handler flashes \<^verbatim>\<open>Failed to change password\<close>, not \<^verbatim>\<open>New passwords do not match\<close>.
\<close>

theorem change_password_mismatch_counterexample:
  "validate_user_session toy_lib (session world1) =
     (Some ''64b7f0c2a1d3e4f5a6b7c8d9'', session world1)
   \<and> map_of (form (post [(''new_password'', ''a''), (''confirm_password'', ''b'')]))
        ''new_password'' = Some ''a''
   \<and> map_of (form (post [(''new_password'', ''a''), (''confirm_password'', ''b'')]))
        ''confirm_password'' = Some ''b''
   \<and> flashes (change_password toy_lib env0
        (post [(''new_password'', ''a''), (''confirm_password'', ''b'')]) world1) =
       [(''Failed to change password'', ''error'')]
   \<and> flashes (change_password toy_lib env0
        (post [(''new_password'', ''a''), (''confirm_password'', ''b'')]) world1) \<noteq>
       [(''New passwords do not match'', ''error'')]"
  using alice_logged_in
  by (simp add: change_password_def change_password_except_def reply_def to_def post_def)

text \<open>
  Claim C6, amended. For a change-password request of a logged-in user: the store
  changes only if the form carries the three fields, the two new passwords are equal,
  the user's record is found and its stored hash accepts the current password. When the
  three fields are there and the new passwords differ, the handler flashes
  \<^verbatim>\<open>New passwords do not match\<close> and changes nothing; when they agree but the record is
  missing or the current password is refused, it flashes
  \<^verbatim>\<open>Current password is incorrect\<close> and changes nothing; when a field is missing, it
  flashes \<^verbatim>\<open>Failed to change password\<close> and changes nothing.
\<close>

theorem change_password_guarded:
  assumes "validate_user_session L (session W) = (Some uid, S)"
  shows "(db (world (change_password L E R W)) \<noteq> db W \<longrightarrow>
           (\<exists>cur new u h.
              map_of (form R) ''current_password'' = Some cur
              \<and> map_of (form R) ''new_password'' = Some new
              \<and> map_of (form R) ''confirm_password'' = Some new
              \<and> find_one (users (db W)) [(''_id'', Oid uid)] = Some u
              \<and> map_of u ''password'' = Some (Str h)
              \<and> check_password_hash L h cur))
    \<and> (\<forall>cur new conf.
          map_of (form R) ''current_password'' = Some cur
          \<and> map_of (form R) ''new_password'' = Some new
          \<and> map_of (form R) ''confirm_password'' = Some conf
          \<and> new \<noteq> conf \<longrightarrow>
          change_password L E R W =
            reply W [(''New passwords do not match'', ''error'')] (to ''profile''))
    \<and> (\<forall>cur new u h.
          map_of (form R) ''current_password'' = Some cur
          \<and> map_of (form R) ''new_password'' = Some new
          \<and> map_of (form R) ''confirm_password'' = Some new
          \<and> (find_one (users (db W)) [(''_id'', Oid uid)] = None
              \<or> find_one (users (db W)) [(''_id'', Oid uid)] = Some u
                 \<and> map_of u ''password'' = Some (Str h)
                 \<and> \<not> check_password_hash L h cur) \<longrightarrow>
          change_password L E R W =
            reply W [(''Current password is incorrect'', ''error'')] (to ''profile''))
    \<and> (map_of (form R) ''current_password'' = None
        \<or> map_of (form R) ''new_password'' = None
        \<or> map_of (form R) ''confirm_password'' = None \<longrightarrow>
          change_password L E R W =
            reply W [(''Failed to change password'', ''error'')] (to ''profile''))"
proof -
  from validate_user_session_Some [OF assms] have s: "S = session W"
    by simp
  show ?thesis
    using assms unfolding s
    by (auto simp add: change_password_def change_password_except_def reply_def set_users_def
        Let_def split: option.splits val.splits if_splits)
qed

theorem change_password_guarded_witness:
  "validate_user_session toy_lib (session world1) =
     (Some ''64b7f0c2a1d3e4f5a6b7c8d9'', session world1)
   \<and> change_password toy_lib env0
        (post [(''current_password'', ''secret123''), (''new_password'', ''a''),
               (''confirm_password'', ''b'')]) world1 =
       reply world1 [(''New passwords do not match'', ''error'')] (to ''profile'')
   \<and> change_password toy_lib env0
        (post [(''current_password'', ''guess''), (''new_password'', ''a''),
               (''confirm_password'', ''a'')]) world1 =
       reply world1 [(''Current password is incorrect'', ''error'')] (to ''profile'')"
proof -
  have f: "find_one (users (db world1)) [(''_id'', Oid ''64b7f0c2a1d3e4f5a6b7c8d9'')] = Some alice"
    by (simp add: world1_def world0_def find_one_def matches_def alice_def)
  have p: "map_of alice ''password'' = Some (Str ''toy$na$321terces'')"
    by (simp add: alice_def)
  have c: "\<not> check_password_hash toy_lib ''toy$na$321terces'' ''guess''"
    by (simp add: toy_lib_def)
  have m: "change_password toy_lib env0
        (post [(''current_password'', ''secret123''), (''new_password'', ''a''),
               (''confirm_password'', ''b'')]) world1 =
       reply world1 [(''New passwords do not match'', ''error'')] (to ''profile'')"
    using change_password_guarded [OF alice_logged_in, where E = env0
        and R = "post [(''current_password'', ''secret123''), (''new_password'', ''a''),
               (''confirm_password'', ''b'')]"]
    by (simp add: post_def)
  have i: "change_password toy_lib env0
        (post [(''current_password'', ''guess''), (''new_password'', ''a''),
               (''confirm_password'', ''a'')]) world1 =
       reply world1 [(''Current password is incorrect'', ''error'')] (to ''profile'')"
    using change_password_guarded [OF alice_logged_in, where E = env0
        and R = "post [(''current_password'', ''guess''), (''new_password'', ''a''),
               (''confirm_password'', ''a'')]"] f p c
    by (simp add: post_def)
  from alice_logged_in m i show ?thesis
    by blast
qed

section \<open>Login\<close>

text \<open>
  Claim C7, as stated, fails: a login request with an email that matches no record and
  an empty password is stopped by the handler's first check and flashes
  \<^verbatim>\<open>Please enter both email and password\<close>, not \<^verbatim>\<open>Invalid email or password\<close>.
\<close>

theorem login_empty_password_counterexample:
  "req_method (post [(''email'', ''nobody@x.com''), (''password'', [])]) = POST
   \<and> find_one (users (db world0)) [(''email'', Str ''nobody@x.com'')] = None
   \<and> flashes (login toy_lib (post [(''email'', ''nobody@x.com''), (''password'', [])]) world0) =
       [(''Please enter both email and password'', ''error'')]
   \<and> flashes (login toy_lib (post [(''email'', ''nobody@x.com''), (''password'', [])]) world0) \<noteq>
       [(''Invalid email or password'', ''error'')]"
  by (simp add: login_def reply_def post_def world0_def find_one_def matches_def alice_def)

text \<open>
  Claim C7, amended. For a login request with a non-empty email and a non-empty
  password: when no record matches the email, or the stored hash of the matched record
  refuses the password, the handler flashes \<^verbatim>\<open>Invalid email or password\<close> in both
  cases, renders the login page and leaves the state as it was; a session without a
  \<^verbatim>\<open>user_id\<close> stays without one. Every login request whose email or password is
  missing or empty flashes \<^verbatim>\<open>Please enter both email and password\<close> instead, redirects
  to the login page and leaves the state as it was.
\<close>

theorem login_failure_generic:
  assumes "req_method R = POST"
    and "map_of (form R) ''email'' = Some email" and "email \<noteq> []"
    and "map_of (form R) ''password'' = Some password" and "password \<noteq> []"
    and "find_one (users (db W)) [(''email'', Str email)] = None
         \<or> (\<exists>u h. find_one (users (db W)) [(''email'', Str email)] = Some u
               \<and> map_of u ''password'' = Some (Str h)
               \<and> \<not> check_password_hash L h password)"
  shows "login L R W =
           reply W [(''Invalid email or password'', ''error'')] (Render ''auth/login.html'' [])
    \<and> session (world (login L R W)) = session W
    \<and> (sess_user_id (session W) = None \<longrightarrow> sess_user_id (session (world (login L R W))) = None)
    \<and> (\<forall>R'. req_method R' = POST
          \<and> (map_of (form R') ''email'' = None \<or> map_of (form R') ''email'' = Some []
             \<or> map_of (form R') ''password'' = None \<or> map_of (form R') ''password'' = Some []) \<longrightarrow>
          login L R' W =
            reply W [(''Please enter both email and password'', ''error'')] (to ''login''))"
proof -
  have g: "\<forall>R'. req_method R' = POST
          \<and> (map_of (form R') ''email'' = None \<or> map_of (form R') ''email'' = Some []
             \<or> map_of (form R') ''password'' = None \<or> map_of (form R') ''password'' = Some []) \<longrightarrow>
          login L R' W =
            reply W [(''Please enter both email and password'', ''error'')] (to ''login'')"
    by (auto simp add: login_def Let_def)
  have f: "login L R W =
           reply W [(''Invalid email or password'', ''error'')] (Render ''auth/login.html'' [])"
    using assms
    by (auto simp add: login_def login_try_def login_invalid_def Let_def)
  then have "session (world (login L R W)) = session W"
    by (simp add: reply_def)
  with f g show ?thesis
    by simp
qed

theorem login_failure_generic_witness:
  "req_method (post [(''email'', ''alice@x.com''), (''password'', ''guess'')]) = POST
   \<and> find_one (users (db world0)) [(''email'', Str ''alice@x.com'')] = Some alice
   \<and> map_of alice ''password'' = Some (Str ''toy$na$321terces'')
   \<and> \<not> check_password_hash toy_lib ''toy$na$321terces'' ''guess''
   \<and> find_one (users (db world0)) [(''email'', Str ''nobody@x.com'')] = None
   \<and> login toy_lib (post [(''email'', ''alice@x.com''), (''password'', ''guess'')]) world0 =
       reply world0 [(''Invalid email or password'', ''error'')] (Render ''auth/login.html'' [])
   \<and> login toy_lib (post [(''email'', ''nobody@x.com''), (''password'', ''guess'')]) world0 =
       reply world0 [(''Invalid email or password'', ''error'')] (Render ''auth/login.html'' [])
   \<and> sess_user_id (session (world
         (login toy_lib (post [(''email'', ''alice@x.com''), (''password'', ''guess'')]) world0))) = None
   \<and> login toy_lib (post [(''email'', ''alice@x.com''), (''password'', [])]) world0 =
       reply world0 [(''Please enter both email and password'', ''error'')] (to ''login'')"
proof -
  let ?R = "post [(''email'', ''alice@x.com''), (''password'', ''guess'')]"
  let ?N = "post [(''email'', ''nobody@x.com''), (''password'', ''guess'')]"
  let ?E = "post [(''email'', ''alice@x.com''), (''password'', [])]"
  have m: "req_method ?R = POST" "req_method ?N = POST" "req_method ?E = POST"
    by (simp_all add: post_def)
  have e: "map_of (form ?R) ''email'' = Some ''alice@x.com''"
    "map_of (form ?R) ''password'' = Some ''guess''"
    "map_of (form ?N) ''email'' = Some ''nobody@x.com''"
    "map_of (form ?N) ''password'' = Some ''guess''"
    "map_of (form ?E) ''password'' = Some []"
    by (simp_all add: post_def)
  have ne: "''alice@x.com'' \<noteq> []" "''guess'' \<noteq> []" "''nobody@x.com'' \<noteq> []"
    by simp_all
  have f: "find_one (users (db world0)) [(''email'', Str ''alice@x.com'')] = Some alice"
    by (simp add: world0_def find_one_def matches_def alice_def)
  have p: "map_of alice ''password'' = Some (Str ''toy$na$321terces'')"
    by (simp add: alice_def)
  have c: "\<not> check_password_hash toy_lib ''toy$na$321terces'' ''guess''"
    by (simp add: toy_lib_def)
  have n: "find_one (users (db world0)) [(''email'', Str ''nobody@x.com'')] = None"
    by (simp add: world0_def find_one_def matches_def alice_def)
  have s: "sess_user_id (session world0) = None"
    by (simp add: world0_def session_clear_def)
  from f p c have h: "find_one (users (db world0)) [(''email'', Str ''alice@x.com'')] = None
         \<or> (\<exists>u h. find_one (users (db world0)) [(''email'', Str ''alice@x.com'')] = Some u
               \<and> map_of u ''password'' = Some (Str h)
               \<and> \<not> check_password_hash toy_lib h ''guess'')"
    by blast
  note t = login_failure_generic [OF m(1) e(1) ne(1) e(2) ne(2) h]
  from t have a: "login toy_lib ?R world0 =
       reply world0 [(''Invalid email or password'', ''error'')] (Render ''auth/login.html'' [])"
    by (rule conjunct1)
  from t s have a': "sess_user_id (session (world (login toy_lib ?R world0))) = None"
    by blast
  from t have g: "req_method ?E = POST
          \<and> (map_of (form ?E) ''email'' = None \<or> map_of (form ?E) ''email'' = Some []
             \<or> map_of (form ?E) ''password'' = None \<or> map_of (form ?E) ''password'' = Some []) \<longrightarrow>
          login toy_lib ?E world0 =
            reply world0 [(''Please enter both email and password'', ''error'')] (to ''login'')"
    by blast
  with m(3) e(5) have g': "login toy_lib ?E world0 =
       reply world0 [(''Please enter both email and password'', ''error'')] (to ''login'')"
    by blast
  from n have h': "find_one (users (db world0)) [(''email'', Str ''nobody@x.com'')] = None
         \<or> (\<exists>u h. find_one (users (db world0)) [(''email'', Str ''nobody@x.com'')] = Some u
               \<and> map_of u ''password'' = Some (Str h)
               \<and> \<not> check_password_hash toy_lib h ''guess'')"
    by blast
  from login_failure_generic [OF m(2) e(3) ne(3) e(4) ne(2) h']
  have b: "login toy_lib ?N world0 =
       reply world0 [(''Invalid email or password'', ''error'')] (Render ''auth/login.html'' [])"
    by (rule conjunct1)
  from m(1) f p c n a b a' g' show ?thesis
    by (intro conjI)
qed

section \<open>Product detail\<close>

text \<open>
  Claim C8. A product-detail request whose identifier does not parse as a store
  identifier is redirected to the product listing with the message
  \<^verbatim>\<open>Invalid product ID\<close>. An identifier that parses but matches no product gets the
  different message \<^verbatim>\<open>Product not found\<close>. No product-detail request changes the
  store, the session or the files.
\<close>

theorem product_detail_invalid_id:
  assumes "ObjectId L product_id = None"
  shows "product_detail L product_id W =
           reply W [(''Invalid product ID'', ''error'')] (to ''product_list'')
    \<and> (\<forall>p i. ObjectId L p = Some i \<and> find_one (products (db W)) [(''_id'', Oid i)] = None \<longrightarrow>
          product_detail L p W = reply W [(''Product not found'', ''error'')] (to ''product_list''))
    \<and> ''Invalid product ID'' \<noteq> ''Product not found''
    \<and> (\<forall>p. world (product_detail L p W) = W)"
  using assms
  by (auto simp add: product_detail_def reply_def split: option.splits)

theorem product_detail_invalid_id_witness:
  "ObjectId toy_lib ''12'' = None
   \<and> product_detail toy_lib ''12'' world0 =
       reply world0 [(''Invalid product ID'', ''error'')] (to ''product_list'')
   \<and> ObjectId toy_lib ''64b7f0c2a1d3e4f5a6b7c8d9'' = Some ''64b7f0c2a1d3e4f5a6b7c8d9''
   \<and> product_detail toy_lib ''64b7f0c2a1d3e4f5a6b7c8d9'' world0 =
       reply world0 [(''Product not found'', ''error'')] (to ''product_list'')"
proof -
  have h: "ObjectId toy_lib ''12'' = None"
    by (simp add: toy_lib_def hex24_def)
  have i: "ObjectId toy_lib ''64b7f0c2a1d3e4f5a6b7c8d9'' = Some ''64b7f0c2a1d3e4f5a6b7c8d9''"
    by (simp add: toy_lib_def hex24_def lower_def lower_char_def)
  have n: "find_one (products (db world0)) [(''_id'', Oid ''64b7f0c2a1d3e4f5a6b7c8d9'')] = None"
    by (simp add: world0_def find_one_def matches_def apples_def)
  from product_detail_invalid_id [OF h, of world0] h i n show ?thesis
    by blast
qed

section \<open>The default image of the profile view\<close>

text \<open>
  Claim C9 describes what the profile view is written to do, and the handler cannot do
  it with the configuration of \<^verbatim>\<open>config.py\<close>: the class defines no
  \<^verbatim>\<open>DEFAULT_IMAGES\<close>, so the lookup of the default image raises and the view is lost.
  Alice is logged in and her record names a picture that is no longer on the disk; the
  view flashes \<^verbatim>\<open>Failed to load profile. Please try again.\<close> and redirects to the
  dashboard instead of showing the farmer default. (With default images configured the
  view does what the claim says: lemma \<open>profile_image_configured\<close>.)
\<close>

theorem profile_default_image_fails:
  "validate_user_session toy_lib (session world2) =
     (Some ''64b7f0c2a1d3e4f5a6b7c8d9'', session world2)
   \<and> find_one (users (db world2)) [(''_id'', Oid ''64b7f0c2a1d3e4f5a6b7c8d9'')] = Some alice
   \<and> map_of alice ''image_url'' = Some (Str ''uploads/user_20240101120000.png'')
   \<and> \<not> path_exists (fs world2)
         (os_path_join (static_folder (app ''/srv'')) ''uploads/user_20240101120000.png'')
   \<and> profile (app ''/srv'') toy_lib world2 =
       reply world2 [(''Failed to load profile. Please try again.'', ''error'')] (to ''dashboard'')"
  by (simp add:
      profile_def profile_user_def profile_except_def resolve_image_def default_image_def
      project_def setdefault_def validate_user_session_def find_one_def matches_def
      path_exists_def os_path_join_def reply_def to_def Let_def app_def Config_def
      world2_def world1_def world0_def alice_session_def alice_def apples_def toy_lib_def
      hex24_def lower_def lower_char_def)

section \<open>Product listing\<close>

text \<open>
  Claim C10. A \<^verbatim>\<open>GET /products\<close> whose \<^verbatim>\<open>category\<close> parameter is present but empty
  applies no filter: it renders the same products as a request without the parameter,
  namely all of them. The filter narrows the query only for a non-empty parameter, and
  then the products rendered are those whose \<^verbatim>\<open>category\<close> is that string.
\<close>

theorem product_list_category:
  assumes "map_of (args R) ''category'' = Some []"
    and "map_of (args R0) ''category'' = None"
  shows "product_list R W = product_list R0 W
    \<and> product_list R W =
        reply W [] (Render ''products/list.html'' [(''products'', TDocs (products (db W)))])
    \<and> (\<forall>R1 c. map_of (args R1) ''category'' = Some c \<and> c \<noteq> [] \<longrightarrow>
          product_list R1 W =
            reply W []
              (Render ''products/list.html''
                 [(''products'',
                   TDocs (filter (\<lambda>d. map_of d ''category'' = Some (Str c)) (products (db W))))]))"
  using assms by (simp add: product_list_def find_docs_def matches_def [abs_def])

theorem product_list_category_witness:
  "map_of (args (get_request\<lparr>args := [(''category'', [])]\<rparr>)) ''category'' = Some []
   \<and> map_of (args get_request) ''category'' = None
   \<and> product_list (get_request\<lparr>args := [(''category'', [])]\<rparr>) world0 = product_list get_request world0
   \<and> product_list (get_request\<lparr>args := [(''category'', [])]\<rparr>) world0 =
        reply world0 [] (Render ''products/list.html'' [(''products'', TDocs [apples])])"
proof -
  have a: "map_of (args (get_request\<lparr>args := [(''category'', [])]\<rparr>)) ''category'' = Some []"
    by simp
  have b: "map_of (args get_request) ''category'' = None"
    by (simp add: get_request_def)
  have c: "products (db world0) = [apples]"
    by (simp add: world0_def)
  from product_list_category [OF a b, of world0, unfolded c] a b show ?thesis
    by blast
qed

end
